theory Spec2Isabelle
  imports Complex_Main "HOL-Library.Word" "HOL-Library.Signed_Division"
begin

section \<open>Terrain generation of digbuild: \<^verbatim>\<open>src/world_generator.cc\<close>\<close>

text \<open>
  The development embeds \<^verbatim>\<open>WorldGenerator\<close> and \<^verbatim>\<open>RegionFeatures\<close> of
  \<^verbatim>\<open>src/world_generator.cc\<close>. The headers that this file includes are not modelled
  from their text: the constants they declare are the fields of a record \<open>Config\<close>, the
  functions they declare are the fields of a record \<open>Env\<close> or are modelled from the
  design document, and every theorem holds for all values of both records (under the
  stated side conditions).

  Conventions:
  \<^item> \<^verbatim>\<open>Scalar\<close> (a C float) is a \<open>real\<close>: rounding of the float arithmetic is not
    modelled; every comparison, \<^verbatim>\<open>std::max\<close> and \<^verbatim>\<open>roundf\<close> is the exact one. Where
    the code turns an integer above \<open>2\<^sup>2\<^sup>4\<close> into a \<^verbatim>\<open>Scalar\<close>, which a float cannot
    hold exactly, the run stops with \<open>InexactScalar\<close>.
  \<^item> \<^verbatim>\<open>int\<close> is \<open>int\<close>, \<^verbatim>\<open>unsigned\<close> is \<open>nat\<close>; each conversion between them and
    each conversion from \<^verbatim>\<open>Scalar\<close> is written out. A conversion from \<^verbatim>\<open>Scalar\<close> to
    \<^verbatim>\<open>unsigned\<close> or from \<^verbatim>\<open>unsigned\<close> to \<^verbatim>\<open>int\<close> whose value does not fit stops the
    run with \<open>IntegerOutOfRange\<close>; a conversion from \<^verbatim>\<open>int\<close> to \<^verbatim>\<open>unsigned\<close> wraps, and
    so does the unsigned sum \<^verbatim>\<open>bottom + 1\<close>. Sums of positions and the sums
    \<^verbatim>\<open>bottom + y\<close> of the vegetation pass are taken over the integers.
  \<^item> A reference \<^verbatim>\<open>Block&\<close> is the index of the block in the chunk vector.
  \<^item> Every out-of-range access is an error value of the model.
  \<^item> A member whose name ends in an underscore (\<^verbatim>\<open>world_seed_\<close>) has the suffix \<open>_f\<close>.
\<close>

subsection \<open>Vectors, materials, errors\<close>

type_synonym Scalar = real
type_synonym Vector2i = "int \<times> int"
type_synonym Vector3i = "int \<times> int \<times> int"
type_synonym Vector2f = "Scalar \<times> Scalar"
type_synonym Vector3f = "Scalar \<times> Scalar \<times> Scalar"

text \<open>The materials \<^verbatim>\<open>BLOCK_MATERIAL_*\<close> that \<^verbatim>\<open>world_generator.cc\<close> names.\<close>

datatype BlockMaterial =
  BLOCK_MATERIAL_AIR
  | BLOCK_MATERIAL_MAGMA
  | BLOCK_MATERIAL_BEDROCK
  | BLOCK_MATERIAL_STONE
  | BLOCK_MATERIAL_CLAY
  | BLOCK_MATERIAL_DIRT
  | BLOCK_MATERIAL_GRASS
  | BLOCK_MATERIAL_TREE_TRUNK
  | BLOCK_MATERIAL_TREE_LEAF

datatype error =
  ChunkIndexOutOfRange
  | BlockIndexOutOfRange
  | OctaveIndexOutOfRange
  | UninitialisedHeight
  | IntegerOutOfRange
  | InexactScalar
  | Diverges

text \<open>
  The constants of \<^verbatim>\<open>chunk.h\<close> and \<^verbatim>\<open>world_generator.h\<close> that the code uses:
  \<^verbatim>\<open>Chunk::SIZE_X\<close>, \<^verbatim>\<open>Chunk::SIZE_Y\<close>, \<^verbatim>\<open>Chunk::SIZE_Z\<close>,
  \<^verbatim>\<open>WorldGenerator::REGION_SIZE\<close>, \<^verbatim>\<open>RegionFeatures::BICUBIC_OCTAVE_EDGE\<close> and
  \<^verbatim>\<open>RegionFeatures::TRILINEAR_BOX_HEIGHT\<close>.
\<close>

record Config =
  SIZE_X :: int
  SIZE_Y :: int
  SIZE_Z :: int
  REGION_SIZE :: int
  BICUBIC_OCTAVE_EDGE :: int
  TRILINEAR_BOX_HEIGHT :: int

text \<open>\<^verbatim>\<open>CHUNKS_PER_REGION_EDGE\<close> (line 12) and \<^verbatim>\<open>TRILINEAR_BOX_SIZE\<close> (line 249).\<close>

definition CHUNKS_PER_REGION_EDGE :: "Config \<Rightarrow> Vector2i" where
  "CHUNKS_PER_REGION_EDGE cfg =
     (REGION_SIZE cfg sdiv SIZE_X cfg, REGION_SIZE cfg sdiv SIZE_Z cfg)"

definition TRILINEAR_BOX_SIZE :: "Config \<Rightarrow> Vector3i" where
  "TRILINEAR_BOX_SIZE cfg = (REGION_SIZE cfg, TRILINEAR_BOX_HEIGHT cfg, REGION_SIZE cfg)"

text \<open>
  The side conditions on the constants: sizes are positive and fit an \<^verbatim>\<open>int\<close>, the
  \<open>2 \<times> 2\<close> octave patches cover the region, and a tree of the largest radius fits the
  footprint of a chunk.
\<close>

definition valid_config :: "Config \<Rightarrow> bool" where
  "valid_config cfg \<longleftrightarrow>
     11 \<le> SIZE_X cfg \<and> SIZE_X cfg < 2 ^ 31 \<and>
     0 < SIZE_Y cfg \<and> SIZE_Y cfg < 2 ^ 31 \<and>
     11 \<le> SIZE_Z cfg \<and> SIZE_Z cfg < 2 ^ 31 \<and>
     0 < REGION_SIZE cfg \<and> REGION_SIZE cfg < 2 ^ 31 \<and>
     0 < BICUBIC_OCTAVE_EDGE cfg \<and>
     REGION_SIZE cfg \<le> 2 * BICUBIC_OCTAVE_EDGE cfg \<and>
     0 < TRILINEAR_BOX_HEIGHT cfg"

subsection \<open>Conversions\<close>

text \<open>\<^verbatim>\<open>roundf\<close>: to the nearest integer, halfway cases away from zero.\<close>

definition roundf :: "Scalar \<Rightarrow> Scalar" where
  "roundf r = (if 0 \<le> r then of_int \<lfloor>r + 1 / 2\<rfloor> else of_int \<lceil>r - 1 / 2\<rceil>)"

text \<open>
  \<^verbatim>\<open>unsigned( r )\<close> for a \<^verbatim>\<open>Scalar\<close>: truncation towards zero; undefined when the
  truncated value is not a 32-bit unsigned number.
\<close>

definition unsigned_of_Scalar :: "Scalar \<Rightarrow> error + nat" where
  "unsigned_of_Scalar r =
     (let i = (if 0 \<le> r then \<lfloor>r\<rfloor> else \<lceil>r\<rceil>)
      in if 0 \<le> i \<and> i < 2 ^ 32 then Inr (nat i) else Inl IntegerOutOfRange)"

text \<open>
  \<^verbatim>\<open>Scalar( n )\<close> for an \<^verbatim>\<open>unsigned\<close> (line 121). A \<^verbatim>\<open>float\<close> holds every integer up
  to \<open>2\<^sup>2\<^sup>4\<close> exactly; above, the conversion rounds to a neighbouring \<^verbatim>\<open>float\<close>. The
  reals of this model do not follow that rounding, so the model has no value there and
  the run stops with \<open>InexactScalar\<close>: nothing is stated about such a run.
\<close>

definition Scalar_of_unsigned :: "nat \<Rightarrow> error + Scalar" where
  "Scalar_of_unsigned n = (if n \<le> 2 ^ 24 then Inr (real n) else Inl InexactScalar)"

text \<open>\<^verbatim>\<open>unsigned\<close> to \<^verbatim>\<open>int\<close> (line 153, line 197) and back (the arguments of
  \<^verbatim>\<open>get_block\<close>).\<close>

definition int_of_unsigned :: "nat \<Rightarrow> error + int" where
  "int_of_unsigned n = (if n < 2 ^ 31 then Inr (int n) else Inl IntegerOutOfRange)"

definition unsigned_of_int :: "int \<Rightarrow> nat" where
  "unsigned_of_int i = nat (i mod 2 ^ 32)"

subsection \<open>Layering: the bands of a block column (lines 105 to 153)\<close>

text \<open>The array \<^verbatim>\<open>layers\<close> of lines 105 to 113. Line 115 counts its entries by
  the size of a pair with the two types swapped, which is the size of an entry: the
  loop of line 118 runs over all six.\<close>

definition layers :: "Scalar \<Rightarrow> (BlockMaterial \<times> Scalar) list" where
  "layers total_height =
     [ (BLOCK_MATERIAL_MAGMA,   1),
       (BLOCK_MATERIAL_BEDROCK, 20 + total_height * 0.25),
       (BLOCK_MATERIAL_STONE,   52 + total_height * 1),
       (BLOCK_MATERIAL_CLAY,    58 + total_height * 1),
       (BLOCK_MATERIAL_DIRT,    62 + total_height * 1),
       (BLOCK_MATERIAL_GRASS,   63 + total_height * 1) ]"

text \<open>
  Lines 121 and 122: \<^verbatim>\<open>height = std::max( layers[i].second, Scalar( bottom + 1 ) )\<close>
  and \<^verbatim>\<open>top = unsigned( roundf( height ) )\<close>. The sum \<^verbatim>\<open>bottom + 1\<close> is unsigned
  and wraps. The loop of line 124, \<^verbatim>\<open>for ( unsigned y = bottom; y <= top; ++y )\<close>,
  does not end when \<open>top\<close> is the largest unsigned number: that is the value
  \<open>Diverges\<close>.
\<close>

definition band_top :: "Scalar \<Rightarrow> nat \<Rightarrow> error + nat" where
  "band_top layer_height bottom =
     (case Scalar_of_unsigned ((bottom + 1) mod 2 ^ 32) of
        Inl e \<Rightarrow> Inl e
      | Inr clamp \<Rightarrow>
          (let height = max layer_height clamp
           in case unsigned_of_Scalar (roundf height) of
                Inl e \<Rightarrow> Inl e
              | Inr t \<Rightarrow> if t = 2 ^ 32 - 1 then Inl Diverges else Inr t))"

text \<open>The tops of the bands in the order of the loop of line 118, \<open>bottom\<close> being
  the top of the band before.\<close>

fun band_tops :: "(BlockMaterial \<times> Scalar) list \<Rightarrow> nat \<Rightarrow> error + nat list" where
  "band_tops [] bottom = Inr []"
| "band_tops ((material, layer_height) # ls) bottom =
     (case band_top layer_height bottom of
        Inl e \<Rightarrow> Inl e
      | Inr t \<Rightarrow>
          (case band_tops ls t of
             Inl e \<Rightarrow> Inl e
           | Inr tops \<Rightarrow> Inr (t # tops)))"


subsection \<open>Chunks and blocks\<close>

text \<open>
  Modelled from the spec: \<^verbatim>\<open>Chunk\<close> and \<^verbatim>\<open>Block\<close> (\<^verbatim>\<open>chunk.h\<close> and \<^verbatim>\<open>block.h\<close>
  are absent). A chunk is "a fixed-size 3D block buffer positioned at an integer
  origin", a block is "one voxel cell with a mutable material tag", and the cells of a
  chunk that was just allocated are empty (air). \<^verbatim>\<open>ChunkV\<close> is the vector of the
  chunks of one column of chunks, lowest first. A \<^verbatim>\<open>Block&\<close> is a \<open>BlockRef\<close>: the
  index of the chunk and the index of the block inside it.
\<close>

record Chunk =
  position_f :: Vector3i
  blocks_f :: "nat \<times> nat \<times> nat \<Rightarrow> BlockMaterial"

type_synonym ChunkV = "Chunk list"
type_synonym BlockRef = "nat \<times> (nat \<times> nat \<times> nat)"

text \<open>Modelled from the spec: the constructor of \<^verbatim>\<open>Chunk\<close> (absent); it takes the
  origin, and every cell of the new chunk is empty.\<close>

definition new_Chunk :: "Vector3i \<Rightarrow> Chunk" where
  "new_Chunk position = \<lparr> position_f = position, blocks_f = (\<lambda>_. BLOCK_MATERIAL_AIR) \<rparr>"

text \<open>Modelled from the spec: \<^verbatim>\<open>Block::get_material\<close> and \<^verbatim>\<open>Block::set_material\<close>
  (absent) read and write the material tag of the block that the reference names.\<close>

definition get_material :: "ChunkV \<Rightarrow> BlockRef \<Rightarrow> BlockMaterial" where
  "get_material chunks block = blocks_f (chunks ! fst block) (snd block)"

definition set_material :: "ChunkV \<Rightarrow> BlockRef \<Rightarrow> BlockMaterial \<Rightarrow> ChunkV" where
  "set_material chunks block material =
     chunks[fst block :=
       (chunks ! fst block)\<lparr> blocks_f := (blocks_f (chunks ! fst block))(snd block := material) \<rparr>]"

text \<open>
  \<^verbatim>\<open>WorldGenerator::get_block\<close> (lines 232 to 243). The origin of a new chunk takes
  \<^verbatim>\<open>height\<close> as an \<^verbatim>\<open>int\<close>, a conversion that must fit. \<^verbatim>\<open>chunks[chunk_index]\<close> past
  the end of the vector is \<open>ChunkIndexOutOfRange\<close>; a block index outside the chunk is
  \<open>BlockIndexOutOfRange\<close>.
\<close>

definition get_block ::
  "Config \<Rightarrow> ChunkV \<Rightarrow> Vector2i \<Rightarrow> nat \<Rightarrow> nat \<Rightarrow> nat \<Rightarrow> error + (ChunkV \<times> BlockRef)" where
  "get_block cfg chunks column_position x z height =
     (let chunk_index = height div nat (SIZE_Y cfg);
          pushed =
            (if chunk_index \<ge> length chunks
             then (case int_of_unsigned height of
                     Inl e \<Rightarrow> Inl e
                   | Inr h \<Rightarrow>
                       Inr (chunks @ [new_Chunk (fst column_position, h, snd column_position)]))
             else Inr chunks)
      in case pushed of
           Inl e \<Rightarrow> Inl e
         | Inr chunks' \<Rightarrow>
             if \<not> chunk_index < length chunks' then Inl ChunkIndexOutOfRange
             else if \<not> (int x < SIZE_X cfg \<and> int z < SIZE_Z cfg) then Inl BlockIndexOutOfRange
             else Inr (chunks', (chunk_index, (x, height mod nat (SIZE_Y cfg), z))))"

text \<open>The material of the cell \<open>(x, y, z)\<close> of a column of chunks; a cell above the
  allocated chunks holds nothing, which reads as air.\<close>

definition allocated :: "Config \<Rightarrow> ChunkV \<Rightarrow> nat \<Rightarrow> bool" where
  "allocated cfg chunks y \<longleftrightarrow> y div nat (SIZE_Y cfg) < length chunks"

definition material_at :: "Config \<Rightarrow> ChunkV \<Rightarrow> nat \<times> nat \<times> nat \<Rightarrow> BlockMaterial" where
  "material_at cfg chunks c =
     (case c of (x, y, z) \<Rightarrow>
        if allocated cfg chunks y
        then blocks_f (chunks ! (y div nat (SIZE_Y cfg))) (x, y mod nat (SIZE_Y cfg), z)
        else BLOCK_MATERIAL_AIR)"

subsection \<open>The noise fields\<close>

text \<open>
  Modelled from the spec: \<^verbatim>\<open>get_seed_for_coordinates\<close> of \<^verbatim>\<open>random.h\<close>, the uniform
  sampling of a corner value (\<open>next_uniform\<close> in the spec), \<^verbatim>\<open>TrilinearBox\<close>, and the
  generator \<^verbatim>\<open>boost::rand48\<close> with \<^verbatim>\<open>boost::uniform_int\<close> of the Boost library are
  absent. They are the fields of \<open>Env\<close>: pure functions of their arguments. A
  \<^verbatim>\<open>TrilinearBox\<close> is represented by its \<^verbatim>\<open>interpolate\<close>. \<open>'g\<close> is the state of the
  generator; \<open>uniform_int env lo hi g\<close> is one draw of a
  \<^verbatim>\<open>variate_generator<rand48&, uniform_int<> >\<close> built on \<^verbatim>\<open>uniform_int<>( lo, hi )\<close>:
  the number drawn and the next state.
\<close>

type_synonym TrilinearBox = "Vector3f \<Rightarrow> Scalar"

record 'g Env =
  get_seed_for_coordinates :: "64 word \<Rightarrow> Vector2i \<Rightarrow> 64 word"
  next_uniform :: "64 word \<Rightarrow> Scalar \<Rightarrow> Scalar \<Rightarrow> Scalar"
  TrilinearBox_new :: "64 word \<Rightarrow> Vector3i \<Rightarrow> Vector3i \<Rightarrow> int \<Rightarrow> TrilinearBox"
  rand48 :: "64 word \<Rightarrow> 'g"
  uniform_int :: "int \<Rightarrow> int \<Rightarrow> 'g \<Rightarrow> int \<times> 'g"

text \<open>The contract of \<^verbatim>\<open>boost::uniform_int\<close>: a draw lies between the bounds.\<close>

definition uniform_int_in_range :: "'g Env \<Rightarrow> bool" where
  "uniform_int_in_range env \<longleftrightarrow>
     (\<forall>lo hi g. lo \<le> hi \<longrightarrow> lo \<le> fst (uniform_int env lo hi g) \<and> fst (uniform_int env lo hi g) \<le> hi)"


text \<open>
  \<^verbatim>\<open>BicubicPatchCornerFeatures\<close> and \<^verbatim>\<open>BicubicPatchFeatures\<close> as lines 29 to 55
  construct them: four ranges for a corner, four corners for a patch. The names of the
  fields are chosen here.
\<close>

record BicubicPatchCornerFeatures =
  height_range :: Vector2f
  dx_range :: Vector2f
  dz_range :: Vector2f
  dxz_range :: Vector2f

record BicubicPatchFeatures =
  features_a :: BicubicPatchCornerFeatures
  features_b :: BicubicPatchCornerFeatures
  features_c :: BicubicPatchCornerFeatures
  features_d :: BicubicPatchCornerFeatures

text \<open>
  Modelled from the spec: \<^verbatim>\<open>BicubicPatch\<close> (\<^verbatim>\<open>bicubic_patch.h\<close> and its
  implementation are absent). "Construction samples one scalar value per corner via
  \<open>next_uniform\<close> seeded by \<open>derive(seed, anchor + corner_offset)\<close>", the corners
  being "low-X/low-Z, high-X/low-Z, high-X/high-Z, low-X/high-Z" in this order, and
  \<open>interpolate\<close> is the "bicubic (smoothstep-based or cubic Hermite) blending of the
  four corner values" over \<open>[0,1]\<^sup>2\<close>. The cubic Hermite blend of two values with no
  slope is the smoothstep blend, so the two readings are one function. The value of a
  corner is drawn from the first range of the corner's features.
\<close>

record BicubicPatch =
  corner_a :: Scalar
  corner_b :: Scalar
  corner_c :: Scalar
  corner_d :: Scalar

text \<open>Modelled from the spec: the constructor of \<^verbatim>\<open>BicubicPatch\<close> (absent), one
  sampled value for each corner.\<close>

definition sample_corner ::
  "'g Env \<Rightarrow> 64 word \<Rightarrow> Vector2i \<Rightarrow> BicubicPatchCornerFeatures \<Rightarrow> Scalar" where
  "sample_corner env seed corner features =
     next_uniform env (get_seed_for_coordinates env seed corner)
       (fst (height_range features)) (snd (height_range features))"

definition BicubicPatch_new ::
  "'g Env \<Rightarrow> 64 word \<Rightarrow> Vector2i \<Rightarrow> Vector2i \<Rightarrow> BicubicPatchFeatures \<Rightarrow> BicubicPatch" where
  "BicubicPatch_new env seed position patch_size features =
     \<lparr> corner_a = sample_corner env seed
                    (fst position, snd position) (features_a features),
       corner_b = sample_corner env seed
                    (fst position + fst patch_size, snd position) (features_b features),
       corner_c = sample_corner env seed
                    (fst position + fst patch_size, snd position + snd patch_size) (features_c features),
       corner_d = sample_corner env seed
                    (fst position, snd position + snd patch_size) (features_d features) \<rparr>"

text \<open>Modelled from the spec: \<^verbatim>\<open>BicubicPatch::interpolate\<close> (absent), the smoothstep
  blend of the four corner values. The function is written for every pair of reals; its
  declared domain is \<open>in_unit_square\<close>, and \<open>in_unit_cube\<close> is the domain of the
  \<^verbatim>\<open>interpolate\<close> of a \<^verbatim>\<open>TrilinearBox\<close>.\<close>

definition smoothstep :: "Scalar \<Rightarrow> Scalar" where
  "smoothstep t = t * t * (3 - 2 * t)"

definition blend :: "Scalar \<Rightarrow> Scalar \<Rightarrow> Scalar \<Rightarrow> Scalar" where
  "blend v0 v1 t = v0 + (v1 - v0) * smoothstep t"

definition interpolate :: "BicubicPatch \<Rightarrow> Vector2f \<Rightarrow> Scalar" where
  "interpolate patch position =
     blend (blend (corner_a patch) (corner_b patch) (fst position))
           (blend (corner_d patch) (corner_c patch) (fst position))
           (snd position)"



subsection \<open>\<^verbatim>\<open>RegionFeatures\<close> (lines 256 to 297)\<close>

text \<open>
  The members \<^verbatim>\<open>fundamental_patch_\<close>, \<^verbatim>\<open>octave_patches_\<close> (a \<open>2 \<times> 2\<close> array) and
  \<^verbatim>\<open>boxes_\<close> (an array of two) that the constructor initialises.
\<close>

record RegionFeatures =
  fundamental_patch_f :: BicubicPatch
  octave_patches_f :: "nat \<Rightarrow> nat \<Rightarrow> BicubicPatch"
  boxes_f :: "nat \<Rightarrow> TrilinearBox"

definition RegionFeatures_new ::
  "Config \<Rightarrow> 'g Env \<Rightarrow> 64 word \<Rightarrow> Vector2i \<Rightarrow> BicubicPatchFeatures \<Rightarrow> BicubicPatchFeatures
     \<Rightarrow> RegionFeatures" where
  "RegionFeatures_new cfg env world_seed position fundamental_features octave_features =
     (let edge = BICUBIC_OCTAVE_EDGE cfg;
          octave_size = (edge, edge);
          octave_seed = xor world_seed 0xfea873529eaf;
          patch = (\<lambda>offset. BicubicPatch_new env octave_seed
                     (fst position + fst offset, snd position + snd offset)
                     octave_size octave_features)
      in \<lparr> fundamental_patch_f =
             BicubicPatch_new env world_seed position
               (REGION_SIZE cfg, REGION_SIZE cfg) fundamental_features,
           octave_patches_f = (\<lambda>i j.
             if i = 0 \<and> j = 0 then patch (0, 0)
             else if i = 0 \<and> j = 1 then patch (0, edge)
             else if i = 1 \<and> j = 0 then patch (edge, 0)
             else patch (edge, edge)),
           boxes_f = (\<lambda>i.
             if i = 0
             then TrilinearBox_new env world_seed
                    (fst position, 0, snd position) (TRILINEAR_BOX_SIZE cfg) 32
             else TrilinearBox_new env (xor world_seed 0x313535f3235)
                    (fst position, 0, snd position) (TRILINEAR_BOX_SIZE cfg) 32) \<rparr>)"

text \<open>
  Modelled from the spec: the accessors \<^verbatim>\<open>get_fundamental_patch\<close>,
  \<^verbatim>\<open>get_octave_patch\<close> and \<^verbatim>\<open>get_box\<close> (declared in the absent header) are the
  "read-only accessors" of the members; an index outside the \<open>2 \<times> 2\<close> array of octave
  patches is \<open>OctaveIndexOutOfRange\<close>.
\<close>

definition get_fundamental_patch :: "RegionFeatures \<Rightarrow> BicubicPatch" where
  "get_fundamental_patch features = fundamental_patch_f features"

definition get_octave_patch :: "RegionFeatures \<Rightarrow> Vector2i \<Rightarrow> error + BicubicPatch" where
  "get_octave_patch features index =
     (if 0 \<le> fst index \<and> fst index < 2 \<and> 0 \<le> snd index \<and> snd index < 2
      then Inr (octave_patches_f features (nat (fst index)) (nat (snd index)))
      else Inl OctaveIndexOutOfRange)"

definition get_box :: "RegionFeatures \<Rightarrow> nat \<Rightarrow> TrilinearBox" where
  "get_box features i = boxes_f features i"

subsection \<open>\<^verbatim>\<open>WorldGenerator::generate_chunk_column\<close> (lines 76 to 156)\<close>

text \<open>A loop over a list that stops at the first error.\<close>

fun for_each :: "('a \<Rightarrow> 's \<Rightarrow> error + 's) \<Rightarrow> 'a list \<Rightarrow> 's \<Rightarrow> error + 's" where
  "for_each body [] s = Inr s"
| "for_each body (a # as) s =
     (case body a s of Inl e \<Rightarrow> Inl e | Inr s' \<Rightarrow> for_each body as s')"

text \<open>
  \<^verbatim>\<open>ChunkHeightmap\<close>: "a 2D array (indexed by in-chunk X,Z)", handed to both functions
  as an array, that is by address. An entry that was never written has no value.
\<close>

type_synonym ChunkHeightmap = "int \<times> int \<rightharpoonup> int"

text \<open>Lines 129 to 133.\<close>

definition box_position :: "Config \<Rightarrow> Vector2i \<Rightarrow> nat \<Rightarrow> Vector3f" where
  "box_position cfg relative_position y =
     (case TRILINEAR_BOX_SIZE cfg of (sx, sy, sz) \<Rightarrow>
        ( real_of_int (fst relative_position) / real_of_int sx,
          real y / real_of_int sy,
          real_of_int (snd relative_position) / real_of_int sz ))"

text \<open>Lines 135 to 147: the material that the cell receives.\<close>

definition carved :: "RegionFeatures \<Rightarrow> Vector3f \<Rightarrow> bool" where
  "carved features position =
     (let densityA = get_box features 0 position;
          densityB = get_box features 1 position
      in densityA > 0.45 \<and> densityA < 0.55 \<and> densityB > 0.45 \<and> densityB < 0.55)"

definition cell_material :: "RegionFeatures \<Rightarrow> Vector3f \<Rightarrow> BlockMaterial \<Rightarrow> BlockMaterial" where
  "cell_material features position material =
     (if material \<noteq> BLOCK_MATERIAL_MAGMA
      then (if carved features position then BLOCK_MATERIAL_AIR else material)
      else material)"

text \<open>Lines 126 to 147: the body of the loop over \<open>y\<close>.\<close>

definition layer_cell ::
  "Config \<Rightarrow> RegionFeatures \<Rightarrow> Vector2i \<Rightarrow> Vector2i \<Rightarrow> int \<Rightarrow> int \<Rightarrow> BlockMaterial
     \<Rightarrow> nat \<Rightarrow> ChunkV \<Rightarrow> error + ChunkV" where
  "layer_cell cfg features column_position relative_position x z material y chunks =
     (case get_block cfg chunks column_position (unsigned_of_int x) (unsigned_of_int z) y of
        Inl e \<Rightarrow> Inl e
      | Inr (chunks', block) \<Rightarrow>
          Inr (set_material chunks' block
                 (cell_material features (box_position cfg relative_position y) material)))"

text \<open>Lines 118 to 151: the loop over the layers; the state is \<open>bottom\<close> and the
  chunks.\<close>

fun layers_loop ::
  "Config \<Rightarrow> RegionFeatures \<Rightarrow> Vector2i \<Rightarrow> Vector2i \<Rightarrow> int \<Rightarrow> int
     \<Rightarrow> (BlockMaterial \<times> Scalar) list \<Rightarrow> nat \<Rightarrow> ChunkV \<Rightarrow> error + (nat \<times> ChunkV)" where
  "layers_loop cfg features cp rp x z [] bottom chunks = Inr (bottom, chunks)"
| "layers_loop cfg features cp rp x z ((material, layer_height) # ls) bottom chunks =
     (case band_top layer_height bottom of
        Inl e \<Rightarrow> Inl e
      | Inr t \<Rightarrow>
          (case for_each (layer_cell cfg features cp rp x z material) [bottom..<Suc t] chunks of
             Inl e \<Rightarrow> Inl e
           | Inr chunks' \<Rightarrow> layers_loop cfg features cp rp x z ls t chunks'))"

text \<open>Lines 88 to 103: the height of the terrain at a block column. Positions are
  vectors over the integers; \<^verbatim>\<open>/\<close> and \<^verbatim>\<open>%\<close> on \<^verbatim>\<open>int\<close> truncate towards zero.\<close>

definition relative_position_of :: "Vector2i \<Rightarrow> Vector2i \<Rightarrow> int \<Rightarrow> int \<Rightarrow> Vector2i" where
  "relative_position_of region_position column_position x z =
     (fst column_position - fst region_position + x,
      snd column_position - snd region_position + z)"

definition fundamental_position :: "Config \<Rightarrow> Vector2i \<Rightarrow> Vector2f" where
  "fundamental_position cfg relative_position =
     (real_of_int (fst relative_position) / real_of_int (REGION_SIZE cfg),
      real_of_int (snd relative_position) / real_of_int (REGION_SIZE cfg))"

definition octave_index :: "Config \<Rightarrow> Vector2i \<Rightarrow> Vector2i" where
  "octave_index cfg relative_position =
     (fst relative_position sdiv BICUBIC_OCTAVE_EDGE cfg,
      snd relative_position sdiv BICUBIC_OCTAVE_EDGE cfg)"

definition octave_position :: "Config \<Rightarrow> Vector2i \<Rightarrow> Vector2f" where
  "octave_position cfg relative_position =
     (real_of_int (fst relative_position smod BICUBIC_OCTAVE_EDGE cfg)
        / real_of_int (BICUBIC_OCTAVE_EDGE cfg),
      real_of_int (snd relative_position smod BICUBIC_OCTAVE_EDGE cfg)
        / real_of_int (BICUBIC_OCTAVE_EDGE cfg))"

definition total_height_at :: "Config \<Rightarrow> RegionFeatures \<Rightarrow> Vector2i \<Rightarrow> error + Scalar" where
  "total_height_at cfg features relative_position =
     (let fundamental_height =
            interpolate (get_fundamental_patch features)
              (fundamental_position cfg relative_position)
      in case get_octave_patch features (octave_index cfg relative_position) of
           Inl e \<Rightarrow> Inl e
         | Inr octave_patch \<Rightarrow>
             (let octave_height =
                    \<bar>interpolate octave_patch (octave_position cfg relative_position)\<bar>
              in Inr (32 + fundamental_height - octave_height)))"

text \<open>Lines 88 to 153: the body of the two loops over \<open>x\<close> and \<open>z\<close>.\<close>

definition generate_block_column ::
  "Config \<Rightarrow> RegionFeatures \<Rightarrow> Vector2i \<Rightarrow> Vector2i \<Rightarrow> int \<times> int
     \<Rightarrow> ChunkV \<times> ChunkHeightmap \<Rightarrow> error + (ChunkV \<times> ChunkHeightmap)" where
  "generate_block_column cfg features region_position column_position xz s =
     (case xz of (x, z) \<Rightarrow> case s of (chunks, heights) \<Rightarrow>
        (let relative_position = relative_position_of region_position column_position x z
         in case total_height_at cfg features relative_position of
              Inl e \<Rightarrow> Inl e
            | Inr total_height \<Rightarrow>
                (case layers_loop cfg features column_position relative_position x z
                        (layers total_height) 0 chunks of
                   Inl e \<Rightarrow> Inl e
                 | Inr (bottom, chunks') \<Rightarrow>
                     (case int_of_unsigned bottom of
                        Inl e \<Rightarrow> Inl e
                      | Inr b \<Rightarrow> Inr (chunks', heights((x, z) \<mapsto> b))))))"

text \<open>The pairs \<open>(x, z)\<close> in the order of the loops of lines 84 and 86.\<close>

definition footprint :: "Config \<Rightarrow> (int \<times> int) list" where
  "footprint cfg = List.product [0..SIZE_X cfg - 1] [0..SIZE_Z cfg - 1]"

definition generate_chunk_column ::
  "Config \<Rightarrow> ChunkV \<Rightarrow> RegionFeatures \<Rightarrow> Vector2i \<Rightarrow> Vector2i \<Rightarrow> ChunkHeightmap
     \<Rightarrow> error + (ChunkV \<times> ChunkHeightmap)" where
  "generate_chunk_column cfg chunks features region_position column_position heights =
     for_each (generate_block_column cfg features region_position column_position)
       (footprint cfg) (chunks, heights)"

text \<open>The value of \<open>bottom\<close> at line 153: the top of the last band, the grass.\<close>

definition grass_top :: "Config \<Rightarrow> RegionFeatures \<Rightarrow> Vector2i \<Rightarrow> error + nat" where
  "grass_top cfg features relative_position =
     (case total_height_at cfg features relative_position of
        Inl e \<Rightarrow> Inl e
      | Inr total_height \<Rightarrow>
          (case band_tops (layers total_height) 0 of
             Inl e \<Rightarrow> Inl e
           | Inr tops \<Rightarrow> Inr (last tops)))"

subsection \<open>\<^verbatim>\<open>WorldGenerator::populate_trees\<close> (lines 158 to 230)\<close>

definition MIN_TREE_RADIUS :: int where "MIN_TREE_RADIUS = 3"
definition MAX_TREE_RADIUS :: int where "MAX_TREE_RADIUS = 5"
definition MIN_TREE_HEIGHT :: int where "MIN_TREE_HEIGHT = 8"
definition MAX_TREE_HEIGHT :: int where "MAX_TREE_HEIGHT = 24"
definition TREES_PER_CHUNK :: int where "TREES_PER_CHUNK = 1"

text \<open>Lines 191 to 195: the four draws of one attempt, in the order of the
  declaration, all from the one generator.\<close>

definition tree_draws :: "Config \<Rightarrow> 'g Env \<Rightarrow> 'g \<Rightarrow> int \<times> int \<times> int \<times> int \<times> 'g" where
  "tree_draws cfg env g =
     (case uniform_int env MAX_TREE_RADIUS (SIZE_X cfg - MAX_TREE_RADIUS - 1) g of (x, g1) \<Rightarrow>
      case uniform_int env MAX_TREE_RADIUS (SIZE_Z cfg - MAX_TREE_RADIUS - 1) g1 of (z, g2) \<Rightarrow>
      case uniform_int env MIN_TREE_HEIGHT MAX_TREE_HEIGHT g2 of (height, g3) \<Rightarrow>
      case uniform_int env MIN_TREE_RADIUS MAX_TREE_RADIUS g3 of (radius, g4) \<Rightarrow>
        (x, z, height, radius, g4))"

text \<open>Lines 211 and 213: the pairs \<open>(u, v)\<close> of the two loops of the canopy.\<close>

definition canopy_offsets :: "int \<Rightarrow> int \<Rightarrow> (int \<times> int) list" where
  "canopy_offsets radius leaf_height =
     List.product [- radius + leaf_height .. radius - leaf_height]
                  [- radius + leaf_height .. radius - leaf_height]"

text \<open>Lines 215 to 223: one cell of the canopy.\<close>

definition leaf_cell ::
  "Config \<Rightarrow> Vector2i \<Rightarrow> int \<Rightarrow> int \<Rightarrow> int \<Rightarrow> int \<Rightarrow> int \<times> int \<Rightarrow> ChunkV \<Rightarrow> error + ChunkV" where
  "leaf_cell cfg column_position x z bottom y uv chunks =
     (case uv of (u, v) \<Rightarrow>
        if u \<noteq> 0 \<or> v \<noteq> 0
        then (case get_block cfg chunks column_position
                     (unsigned_of_int (x + u)) (unsigned_of_int (z + v))
                     (unsigned_of_int (bottom + y)) of
                Inl e \<Rightarrow> Inl e
              | Inr (chunks', leaf_block) \<Rightarrow>
                  if get_material chunks' leaf_block = BLOCK_MATERIAL_AIR
                  then Inr (set_material chunks' leaf_block BLOCK_MATERIAL_TREE_LEAF)
                  else Inr chunks')
        else Inr chunks)"

text \<open>Lines 204 to 226: one level of the trunk, with its canopy.\<close>

definition trunk_level ::
  "Config \<Rightarrow> Vector2i \<Rightarrow> int \<Rightarrow> int \<Rightarrow> int \<Rightarrow> int \<Rightarrow> int \<Rightarrow> int \<Rightarrow> ChunkV \<Rightarrow> error + ChunkV" where
  "trunk_level cfg column_position x z height radius bottom y chunks =
     (case get_block cfg chunks column_position
             (unsigned_of_int x) (unsigned_of_int z) (unsigned_of_int (bottom + y)) of
        Inl e \<Rightarrow> Inl e
      | Inr (chunks', trunk_block) \<Rightarrow>
          (let trunk = set_material chunks' trunk_block BLOCK_MATERIAL_TREE_TRUNK;
               leaf_height = y - (height - radius - 1)
           in if leaf_height \<ge> 0
              then for_each (leaf_cell cfg column_position x z bottom y)
                     (canopy_offsets radius leaf_height) trunk
              else Inr trunk))"

text \<open>Lines 197 to 228: the tree at \<open>(x, z)\<close>, once the four numbers are drawn.\<close>

definition grow_tree ::
  "Config \<Rightarrow> Vector2i \<Rightarrow> ChunkHeightmap \<Rightarrow> int \<Rightarrow> int \<Rightarrow> int \<Rightarrow> int \<Rightarrow> ChunkV \<Rightarrow> error + ChunkV" where
  "grow_tree cfg column_position heights x z height radius chunks =
     (case heights (x, z) of
        None \<Rightarrow> Inl UninitialisedHeight
      | Some bottom \<Rightarrow>
          (case get_block cfg chunks column_position
                  (unsigned_of_int x) (unsigned_of_int z) (unsigned_of_int bottom) of
             Inl e \<Rightarrow> Inl e
           | Inr (chunks', bottom_block) \<Rightarrow>
               if get_material chunks' bottom_block = BLOCK_MATERIAL_GRASS
               then for_each (trunk_level cfg column_position x z height radius bottom)
                      [1 .. height - 1] chunks'
               else Inr chunks'))"

text \<open>Lines 189 to 229: the body of the loop over the attempts; the state is the
  generator and the chunks.\<close>

definition tree_attempt ::
  "Config \<Rightarrow> 'g Env \<Rightarrow> Vector2i \<Rightarrow> ChunkHeightmap \<Rightarrow> int \<Rightarrow> 'g \<times> ChunkV \<Rightarrow> error + ('g \<times> ChunkV)" where
  "tree_attempt cfg env column_position heights i s =
     (case s of (g, chunks) \<Rightarrow>
        case tree_draws cfg env g of (x, z, height, radius, g') \<Rightarrow>
          (case grow_tree cfg column_position heights x z height radius chunks of
             Inl e \<Rightarrow> Inl e
           | Inr chunks' \<Rightarrow> Inr (g', chunks')))"

definition populate_trees ::
  "Config \<Rightarrow> 'g Env \<Rightarrow> 64 word \<Rightarrow> ChunkV \<Rightarrow> Vector2i \<Rightarrow> ChunkHeightmap \<Rightarrow> error + ChunkV" where
  "populate_trees cfg env world_seed chunks column_position heights =
     (let tree_generator = rand48 env (get_seed_for_coordinates env world_seed column_position)
      in case for_each (tree_attempt cfg env column_position heights)
                [0 .. TREES_PER_CHUNK - 1] (tree_generator, chunks) of
           Inl e \<Rightarrow> Inl e
         | Inr (g, chunks') \<Rightarrow> Inr chunks')"

subsection \<open>\<^verbatim>\<open>WorldGenerator::generate_region\<close> (lines 24 to 74)\<close>

definition fundamental_corner_features :: BicubicPatchCornerFeatures where
  "fundamental_corner_features =
     \<lparr> height_range = (0, 128), dx_range = (- 64, 64),
       dz_range = (- 64, 64), dxz_range = (- 64, 64) \<rparr>"

definition fundamental_features :: BicubicPatchFeatures where
  "fundamental_features =
     \<lparr> features_a = fundamental_corner_features, features_b = fundamental_corner_features,
       features_c = fundamental_corner_features, features_d = fundamental_corner_features \<rparr>"

definition octave_corner_features :: BicubicPatchCornerFeatures where
  "octave_corner_features =
     \<lparr> height_range = (- 32, 32), dx_range = (- 64, 64),
       dz_range = (- 64, 64), dxz_range = (- 64, 64) \<rparr>"

definition octave_features :: BicubicPatchFeatures where
  "octave_features =
     \<lparr> features_a = octave_corner_features, features_b = octave_corner_features,
       features_c = octave_corner_features, features_d = octave_corner_features \<rparr>"

text \<open>The generator object: its only member is the seed (line 19).\<close>

record WorldGenerator =
  world_seed_f :: "64 word"

definition WorldGenerator_new :: "64 word \<Rightarrow> WorldGenerator" where
  "WorldGenerator_new world_seed = \<lparr> world_seed_f = world_seed \<rparr>"

text \<open>Lines 64 to 69: the body of the two loops over the columns of chunks. The
  heightmap and the chunk vector of a column are fresh local objects.\<close>

definition region_column ::
  "Config \<Rightarrow> 'g Env \<Rightarrow> 64 word \<Rightarrow> RegionFeatures \<Rightarrow> Vector2i \<Rightarrow> int \<times> int \<Rightarrow> ChunkV
     \<Rightarrow> error + ChunkV" where
  "region_column cfg env world_seed region_features position xz chunks =
     (case xz of (x, z) \<Rightarrow>
        (let column_position = (fst position + x * SIZE_X cfg, snd position + z * SIZE_Z cfg)
         in case generate_chunk_column cfg [] region_features position column_position
                   Map.empty of
              Inl e \<Rightarrow> Inl e
            | Inr (column_chunks, heights) \<Rightarrow>
                (case populate_trees cfg env world_seed column_chunks column_position heights of
                   Inl e \<Rightarrow> Inl e
                 | Inr column_chunks' \<Rightarrow> Inr (chunks @ column_chunks'))))"

text \<open>\<^verbatim>\<open>generate_region\<close> is a member function that is not \<^verbatim>\<open>const\<close>: it returns
  the chunks and the generator object as the call leaves it.\<close>

definition generate_region ::
  "Config \<Rightarrow> 'g Env \<Rightarrow> WorldGenerator \<Rightarrow> Vector2i \<Rightarrow> (error + ChunkV) \<times> WorldGenerator" where
  "generate_region cfg env this position =
     (let region_features =
            RegionFeatures_new cfg env (world_seed_f this) position
              fundamental_features octave_features
      in ( for_each (region_column cfg env (world_seed_f this) region_features position)
             (List.product [0 .. fst (CHUNKS_PER_REGION_EDGE cfg) - 1]
                           [0 .. snd (CHUNKS_PER_REGION_EDGE cfg) - 1]) [],
           this ))"

text \<open>A client of the generator: the regions at the positions of a list, generated
  one after the other on the same object; the results in the order of the calls.\<close>

fun generate_regions ::
  "Config \<Rightarrow> 'g Env \<Rightarrow> WorldGenerator \<Rightarrow> Vector2i list
     \<Rightarrow> (error + ChunkV) list \<times> WorldGenerator" where
  "generate_regions cfg env this [] = ([], this)"
| "generate_regions cfg env this (position # positions) =
     (case generate_region cfg env this position of (r, this') \<Rightarrow>
        case generate_regions cfg env this' positions of (rs, this'') \<Rightarrow> (r # rs, this''))"

subsection \<open>What the vegetation pass may write\<close>

text \<open>The numbers of an attempt are in the ranges of their distributions.\<close>

definition drawn_in_range :: "Config \<Rightarrow> int \<Rightarrow> int \<Rightarrow> int \<Rightarrow> int \<Rightarrow> bool" where
  "drawn_in_range cfg x z height radius \<longleftrightarrow>
     MAX_TREE_RADIUS \<le> x \<and> x \<le> SIZE_X cfg - MAX_TREE_RADIUS - 1 \<and>
     MAX_TREE_RADIUS \<le> z \<and> z \<le> SIZE_Z cfg - MAX_TREE_RADIUS - 1 \<and>
     MIN_TREE_HEIGHT \<le> height \<and> height \<le> MAX_TREE_HEIGHT \<and>
     MIN_TREE_RADIUS \<le> radius \<and> radius \<le> MAX_TREE_RADIUS"

text \<open>
  From \<open>chunks\<close> to \<open>chunks'\<close>, each cell is unchanged, or held air and holds a leaf,
  or is a cell of the block column \<open>(tx, tz)\<close> and holds trunk.
\<close>

definition tree_writes :: "Config \<Rightarrow> nat \<Rightarrow> nat \<Rightarrow> ChunkV \<Rightarrow> ChunkV \<Rightarrow> bool" where
  "tree_writes cfg tx tz chunks chunks' \<longleftrightarrow>
     (\<forall>c. material_at cfg chunks' c = material_at cfg chunks c \<or>
          (material_at cfg chunks c = BLOCK_MATERIAL_AIR \<and>
           material_at cfg chunks' c = BLOCK_MATERIAL_TREE_LEAF) \<or>
          (fst c = tx \<and> snd (snd c) = tz \<and>
           material_at cfg chunks' c = BLOCK_MATERIAL_TREE_TRUNK))"

subsection \<open>Example inputs\<close>

text \<open>Constants that satisfy the side conditions, a patch whose four corners hold one
  value, and region features with flat patches and boxes of one density.\<close>

definition example_config :: Config where
  "example_config =
     \<lparr> SIZE_X = 16, SIZE_Y = 16, SIZE_Z = 16, REGION_SIZE = 128,
       BICUBIC_OCTAVE_EDGE = 64, TRILINEAR_BOX_HEIGHT = 256 \<rparr>"

definition flat_patch :: "Scalar \<Rightarrow> BicubicPatch" where
  "flat_patch v = \<lparr> corner_a = v, corner_b = v, corner_c = v, corner_d = v \<rparr>"

definition flat_features :: "Scalar \<Rightarrow> Scalar \<Rightarrow> RegionFeatures" where
  "flat_features v density =
     \<lparr> fundamental_patch_f = flat_patch v,
       octave_patches_f = (\<lambda>i j. flat_patch 0),
       boxes_f = (\<lambda>i position. density) \<rparr>"

text \<open>An environment whose generator always draws the lower bound, and a chunk
  vector of one chunk with a grass block at \<open>(5, 0, 5)\<close> and a stone block at
  \<open>(6, 4, 5)\<close>, inside the canopy of a tree rooted on the grass block.\<close>

definition lowest_draw_env :: "unit Env" where
  "lowest_draw_env =
     \<lparr> get_seed_for_coordinates = (\<lambda>seed position. seed),
       next_uniform = (\<lambda>seed lo hi. lo),
       TrilinearBox_new = (\<lambda>seed position box_size resolution p. 0),
       rand48 = (\<lambda>seed. ()),
       uniform_int = (\<lambda>lo hi g. (lo, g)) \<rparr>"

definition grass_and_stone :: ChunkV where
  "grass_and_stone =
     set_material
       (set_material [new_Chunk (0, 0, 0)] (0, (5, 0, 5)) BLOCK_MATERIAL_GRASS)
       (0, (6, 4, 5)) BLOCK_MATERIAL_STONE"

text \<open>What a run that returned holds: the material of a cell and an entry of the
  heightmap; \<open>None\<close> when the run stopped with an error.\<close>

definition material_in :: "Config \<Rightarrow> error + ChunkV \<Rightarrow> nat \<times> nat \<times> nat \<Rightarrow> BlockMaterial option" where
  "material_in cfg r c = (case r of Inl e \<Rightarrow> None | Inr chunks \<Rightarrow> Some (material_at cfg chunks c))"

definition column_material ::
  "Config \<Rightarrow> error + (ChunkV \<times> ChunkHeightmap) \<Rightarrow> nat \<times> nat \<times> nat \<Rightarrow> BlockMaterial option" where
  "column_material cfg r c =
     (case r of Inl e \<Rightarrow> None | Inr (chunks, heights) \<Rightarrow> Some (material_at cfg chunks c))"

definition column_height :: "error + (ChunkV \<times> ChunkHeightmap) \<Rightarrow> int \<times> int \<Rightarrow> int option" where
  "column_height r xz = (case r of Inl e \<Rightarrow> None | Inr (chunks, heights) \<Rightarrow> heights xz)"

subsection \<open>Facts about the conversions and the band tops\<close>

lemma roundf_of_nat: "roundf (real n) = real n"
proof -
  have "\<lfloor>real n + 1 / 2\<rfloor> = int n" by linarith
  then show ?thesis by (simp add: roundf_def)
qed

lemma roundf_mono: "a \<le> b \<Longrightarrow> roundf a \<le> roundf b"
proof -
  assume ab: "a \<le> b"
  have f: "\<lfloor>a + 1 / 2\<rfloor> \<le> \<lfloor>b + 1 / 2\<rfloor>" using ab by (simp add: floor_mono)
  have c: "\<lceil>a - 1 / 2\<rceil> \<le> \<lceil>b - 1 / 2\<rceil>" using ab by (simp add: ceiling_mono)
  have m: "a < 0 \<Longrightarrow> 0 \<le> b \<Longrightarrow> \<lceil>a - 1 / 2\<rceil> \<le> \<lfloor>b + 1 / 2\<rfloor>"
    by linarith
  show ?thesis using f c m ab by (auto simp: roundf_def)
qed

lemma roundf_is_int: "\<exists>k::int. roundf r = of_int k"
  by (simp add: roundf_def)

lemma band_top_exact:
  "(bottom + 1) mod 2 ^ 32 \<le> 2 ^ 24 \<Longrightarrow>
     band_top h bottom =
       (case unsigned_of_Scalar (roundf (max h (real ((bottom + 1) mod 2 ^ 32)))) of
          Inl e \<Rightarrow> Inl e
        | Inr t \<Rightarrow> if t = 2 ^ 32 - 1 then Inl Diverges else Inr t)"
  by (simp add: band_top_def Scalar_of_unsigned_def Let_def)

lemma band_top_Inr_exact:
  "band_top h bottom = Inr t \<Longrightarrow> (bottom + 1) mod 2 ^ 32 \<le> 2 ^ 24"
  by (simp add: band_top_def Scalar_of_unsigned_def split: if_splits)

lemma band_top_Inr:
  assumes "band_top h bottom = Inr t" and b: "bottom < 2 ^ 32 - 1"
  shows "bottom < t" and "t < 2 ^ 32 - 1"
proof -
  let ?b = "real ((bottom + 1) mod 2 ^ 32)"
  let ?r = "roundf (max h ?b)"
  from b have bm: "(bottom + 1) mod 2 ^ 32 = bottom + 1" by simp
  from assms(1) band_top_exact [OF band_top_Inr_exact [OF assms(1)], of h]
  have u: "unsigned_of_Scalar ?r = Inr t" and lt: "t \<noteq> 2 ^ 32 - 1"
    by (auto split: sum.splits if_splits)
  have rb: "?b \<le> ?r"
    using roundf_mono [of ?b "max h ?b"] by (simp add: roundf_of_nat)
  obtain k :: int where k: "?r = of_int k"
    using roundf_is_int by blast
  from rb k have k0: "0 \<le> k" by linarith
  from u k k0 have t: "t = nat k" and k32: "k < 2 ^ 32"
    by (auto simp: unsigned_of_Scalar_def Let_def split: if_splits)
  from k32 k0 have "nat k < 2 ^ 32" by (simp add: nat_less_iff)
  with t lt show t32: "t < 2 ^ 32 - 1" by simp
  from rb k bm have "real (bottom + 1) \<le> of_int k" by simp
  then have "int (bottom + 1) \<le> k" by linarith
  with t show "bottom < t" by linarith
qed

lemma band_tops_Inr:
  "band_tops ls bottom = Inr tops \<Longrightarrow> bottom < 2 ^ 32 - 1 \<Longrightarrow>
     sorted_wrt (<) (bottom # tops) \<and> length tops = length ls \<and> (\<forall>t \<in> set tops. t < 2 ^ 32 - 1)"
proof (induction ls arbitrary: bottom tops)
  case Nil
  then show ?case by simp
next
  case (Cons l ls)
  obtain material h where l: "l = (material, h)" by (cases l)
  from Cons.prems l obtain t ts where
    t: "band_top h bottom = Inr t" and ts: "band_tops ls t = Inr ts" and tops: "tops = t # ts"
    by (auto split: sum.splits)
  from band_top_Inr [OF t Cons.prems(2)] have bt: "bottom < t" and t32: "t < 2 ^ 32 - 1" .
  from Cons.IH [OF ts t32] have
    ih: "sorted_wrt (<) (t # ts)" "length ts = length ls" "\<forall>t \<in> set ts. t < 2 ^ 32 - 1"
    by auto
  from ih(1) bt have "\<forall>u \<in> set ts. bottom < u" by auto
  with ih bt t32 tops show ?case by simp
qed

lemma band_top_bound:
  assumes h: "h \<le> real B" and b: "bottom < B" and B24: "B \<le> 2 ^ 24"
  shows "\<exists>t. band_top h bottom = Inr t \<and> t \<le> B"
proof -
  let ?b = "real ((bottom + 1) mod 2 ^ 32)"
  let ?r = "roundf (max h ?b)"
  from B24 have B: "B < 2 ^ 32 - 1" by simp
  from b B have bm: "(bottom + 1) mod 2 ^ 32 = bottom + 1" by simp
  from bm b B24 have ex: "(bottom + 1) mod 2 ^ 32 \<le> 2 ^ 24" by simp
  have lo: "?b \<le> ?r"
    using roundf_mono [of ?b "max h ?b"] by (simp add: roundf_of_nat)
  from h b bm have "max h ?b \<le> real B" by simp
  from roundf_mono [OF this] have hi: "?r \<le> real B" by (simp add: roundf_of_nat)
  obtain k :: int where k: "?r = of_int k"
    using roundf_is_int by blast
  from lo k have k0: "0 \<le> k" by linarith
  from hi k have kB: "k \<le> int B" by linarith
  from B have "int B < 2 ^ 32 - 1" by simp
  with kB have k32: "k < 2 ^ 32 - 1" by linarith
  from k k0 k32 have u: "unsigned_of_Scalar ?r = Inr (nat k)"
    by (simp add: unsigned_of_Scalar_def)
  from k0 k32 have ne: "nat k \<noteq> 2 ^ 32 - 1" by (simp add: nat_eq_iff)
  from u ne have "band_top h bottom = Inr (nat k)"
    by (simp add: band_top_exact [OF ex])
  moreover from kB k0 have "nat k \<le> B" by simp
  ultimately show ?thesis by blast
qed

lemma band_tops_total:
  "(\<forall>l \<in> set ls. snd l \<le> real B) \<Longrightarrow> bottom \<le> B \<Longrightarrow> B + length ls \<le> 2 ^ 24 \<Longrightarrow>
     \<exists>tops. band_tops ls bottom = Inr tops"
proof (induction ls arbitrary: bottom B)
  case Nil
  then show ?case by simp
next
  case (Cons l ls)
  obtain material h where l: "l = (material, h)" by (cases l)
  from Cons.prems l have h: "h \<le> real (Suc B)" by simp
  from Cons.prems have b: "bottom < Suc B" and B: "Suc B \<le> 2 ^ 24" by simp_all
  from band_top_bound [OF h b B] obtain t where
    t: "band_top h bottom = Inr t" and tB: "t \<le> Suc B" by blast
  from Cons.prems have "\<forall>l \<in> set ls. snd l \<le> real (Suc B)" by auto
  moreover from Cons.prems have "Suc B + length ls \<le> 2 ^ 24" by simp
  ultimately obtain tops where "band_tops ls t = Inr tops"
    using Cons.IH [of "Suc B" t] tB by blast
  with t l show ?case by simp
qed

subsection \<open>Facts about the chunk vector\<close>

lemma for_each_append:
  "for_each body (xs @ ys) s =
     (case for_each body xs s of Inl e \<Rightarrow> Inl e | Inr s' \<Rightarrow> for_each body ys s')"
  by (induction xs arbitrary: s) (auto split: sum.splits)

lemma length_set_material [simp]: "length (set_material chunks block m) = length chunks"
  by (simp add: set_material_def)

lemma allocated_set_material [simp]:
  "allocated cfg (set_material chunks block m) y = allocated cfg chunks y"
  by (simp add: allocated_def)

lemma get_block_Inr:
  assumes "get_block cfg chunks cp x z h = Inr (chunks', block)"
  shows "block = (h div nat (SIZE_Y cfg), (x, h mod nat (SIZE_Y cfg), z))"
    and "int x < SIZE_X cfg" and "int z < SIZE_Z cfg"
    and "allocated cfg chunks' h"
    and "h div nat (SIZE_Y cfg) \<le> length chunks"
    and "length chunks \<le> length chunks'"
    and "material_at cfg chunks' = material_at cfg chunks"
proof -
  let ?i = "h div nat (SIZE_Y cfg)"
  from assms have cases:
    "(?i < length chunks \<and> chunks' = chunks) \<or>
     (?i = length chunks \<and> (\<exists>p. chunks' = chunks @ [new_Chunk p]))"
    by (auto simp: get_block_def Let_def int_of_unsigned_def split: sum.splits if_splits)
  from assms show "block = (?i, (x, h mod nat (SIZE_Y cfg), z))"
    and "int x < SIZE_X cfg" and "int z < SIZE_Z cfg"
    by (auto simp: get_block_def Let_def split: sum.splits if_splits)
  from cases show "allocated cfg chunks' h" by (auto simp: allocated_def)
  from cases show "?i \<le> length chunks" by auto
  from cases show "length chunks \<le> length chunks'" by auto
  from cases show "material_at cfg chunks' = material_at cfg chunks"
  proof
    assume "?i < length chunks \<and> chunks' = chunks"
    then show ?thesis by simp
  next
    assume "?i = length chunks \<and> (\<exists>p. chunks' = chunks @ [new_Chunk p])"
    then obtain p where c: "chunks' = chunks @ [new_Chunk p]" by blast
    show ?thesis
    proof
      fix c' :: "nat \<times> nat \<times> nat"
      obtain x' y' z' where c': "c' = (x', y', z')" by (cases c')
      show "material_at cfg chunks' c' = material_at cfg chunks c'"
        using c c' by (auto simp: material_at_def allocated_def nth_append new_Chunk_def)
    qed
  qed
qed

lemma get_block_no_chunk_error:
  "h div nat (SIZE_Y cfg) \<le> length chunks \<Longrightarrow>
     get_block cfg chunks cp x z h \<noteq> Inl ChunkIndexOutOfRange"
  by (auto simp: get_block_def Let_def int_of_unsigned_def split: sum.splits if_splits)

lemma get_block_no_block_error:
  "int x < SIZE_X cfg \<Longrightarrow> int z < SIZE_Z cfg \<Longrightarrow>
     get_block cfg chunks cp x z h \<noteq> Inl BlockIndexOutOfRange"
  by (auto simp: get_block_def Let_def int_of_unsigned_def split: sum.splits if_splits)

lemma material_at_set_material:
  assumes sy: "0 < SIZE_Y cfg" and al: "allocated cfg chunks y"
  shows "material_at cfg
           (set_material chunks (y div nat (SIZE_Y cfg), (x, y mod nat (SIZE_Y cfg), z)) m)
         = (material_at cfg chunks)((x, y, z) := m)"
proof
  fix c :: "nat \<times> nat \<times> nat"
  obtain x' y' z' where c: "c = (x', y', z')" by (cases c)
  let ?n = "nat (SIZE_Y cfg)"
  from sy have n: "0 < ?n" by simp
  have eq: "y' div ?n = y div ?n \<and> y' mod ?n = y mod ?n \<longleftrightarrow> y' = y"
    by (metis div_mult_mod_eq)
  show "material_at cfg
           (set_material chunks (y div nat (SIZE_Y cfg), (x, y mod nat (SIZE_Y cfg), z)) m) c
         = ((material_at cfg chunks)((x, y, z) := m)) c"
    using al eq c
    by (auto simp: material_at_def set_material_def allocated_def nth_list_update)
qed

lemma layer_cell_Inr:
  assumes sy: "0 < SIZE_Y cfg"
    and r: "layer_cell cfg features cp rp x z material y chunks = Inr chunks'"
  shows "material_at cfg chunks' =
           (material_at cfg chunks)((unsigned_of_int x, y, unsigned_of_int z) :=
              cell_material features (box_position cfg rp y) material)"
    and "allocated cfg chunks' y"
    and "length chunks \<le> length chunks'"
proof -
  from r obtain c1 block where
    g: "get_block cfg chunks cp (unsigned_of_int x) (unsigned_of_int z) y = Inr (c1, block)"
    and c: "chunks' = set_material c1 block
              (cell_material features (box_position cfg rp y) material)"
    by (auto simp: layer_cell_def split: sum.splits)
  note gb = get_block_Inr [OF g]
  from gb(4) c show "allocated cfg chunks' y" by simp
  from gb(6) c show "length chunks \<le> length chunks'" by simp
  from material_at_set_material [OF sy gb(4)] gb(1) gb(7) c
  show "material_at cfg chunks' =
           (material_at cfg chunks)((unsigned_of_int x, y, unsigned_of_int z) :=
              cell_material features (box_position cfg rp y) material)"
    by simp
qed

lemma layer_cell_no_chunk_error:
  "y div nat (SIZE_Y cfg) \<le> length chunks \<Longrightarrow>
     layer_cell cfg features cp rp x z material y chunks \<noteq> Inl ChunkIndexOutOfRange"
  using get_block_no_chunk_error [of y cfg chunks cp "unsigned_of_int x" "unsigned_of_int z"]
  by (auto simp: layer_cell_def split: sum.splits)

lemma div_Suc_le: "allocated cfg chunks y \<Longrightarrow> Suc y div nat (SIZE_Y cfg) \<le> length chunks"
  by (simp add: allocated_def div_Suc)

subsection \<open>Facts about the loops of the layering\<close>

lemma unsigned_of_Scalar_Inl: "unsigned_of_Scalar r = Inl e \<Longrightarrow> e = IntegerOutOfRange"
  by (simp add: unsigned_of_Scalar_def Let_def split: if_splits)

lemma band_top_Inl:
  "band_top h b = Inl e \<Longrightarrow> e = IntegerOutOfRange \<or> e = InexactScalar \<or> e = Diverges"
proof (cases "(b + 1) mod 2 ^ 32 \<le> 2 ^ 24")
  case False
  assume "band_top h b = Inl e"
  with False show ?thesis by (simp add: band_top_def Scalar_of_unsigned_def)
next
  case True
  assume "band_top h b = Inl e"
  with band_top_exact [OF True, of h] show ?thesis
    by (cases "unsigned_of_Scalar (roundf (max h (real ((b + 1) mod 2 ^ 32))))")
       (auto dest: unsigned_of_Scalar_Inl split: if_splits)
qed

lemma band_loop_Inr:
  assumes sy: "0 < SIZE_Y cfg"
  shows "for_each (layer_cell cfg features cp rp x z material) [a..<b] chunks = Inr chunks' \<Longrightarrow>
     (\<forall>x' y' z'. material_at cfg chunks' (x', y', z') =
        (if x' = unsigned_of_int x \<and> z' = unsigned_of_int z \<and> a \<le> y' \<and> y' < b
         then cell_material features (box_position cfg rp y') material
         else material_at cfg chunks (x', y', z'))) \<and>
     length chunks \<le> length chunks' \<and>
     (a < b \<longrightarrow> allocated cfg chunks' (b - 1))"
proof (induction b arbitrary: chunks')
  case 0
  then show ?case by simp
next
  case (Suc b)
  show ?case
  proof (cases "a \<le> b")
    case False
    with Suc.prems show ?thesis by auto
  next
    case True
    then have up: "[a..<Suc b] = [a..<b] @ [b]" by simp
    from Suc.prems up obtain c1 where
      c1: "for_each (layer_cell cfg features cp rp x z material) [a..<b] chunks = Inr c1"
      and l: "layer_cell cfg features cp rp x z material b c1 = Inr chunks'"
      by (auto simp: for_each_append split: sum.splits)
    note ih = Suc.IH [OF c1]
    note lc = layer_cell_Inr [OF sy l]
    have "\<forall>x' y' z'. material_at cfg chunks' (x', y', z') =
        (if x' = unsigned_of_int x \<and> z' = unsigned_of_int z \<and> a \<le> y' \<and> y' < Suc b
         then cell_material features (box_position cfg rp y') material
         else material_at cfg chunks (x', y', z'))"
    proof (intro allI)
      fix x' y' z'
      from ih have m: "material_at cfg c1 (x', y', z') =
        (if x' = unsigned_of_int x \<and> z' = unsigned_of_int z \<and> a \<le> y' \<and> y' < b
         then cell_material features (box_position cfg rp y') material
         else material_at cfg chunks (x', y', z'))" by blast
      show "material_at cfg chunks' (x', y', z') =
        (if x' = unsigned_of_int x \<and> z' = unsigned_of_int z \<and> a \<le> y' \<and> y' < Suc b
         then cell_material features (box_position cfg rp y') material
         else material_at cfg chunks (x', y', z'))"
      proof (cases "x' = unsigned_of_int x \<and> z' = unsigned_of_int z \<and> y' = b")
        case True
        with lc(1) \<open>a \<le> b\<close> show ?thesis by simp
      next
        case False
        then have "material_at cfg chunks' (x', y', z') = material_at cfg c1 (x', y', z')"
          using lc(1) by auto
        with m False show ?thesis by (auto simp: less_Suc_eq)
      qed
    qed
    moreover from ih lc(3) have "length chunks \<le> length chunks'" by linarith
    moreover from lc(2) have "allocated cfg chunks' (Suc b - 1)" by simp
    ultimately show ?thesis by blast
  qed
qed

lemma band_loop_no_chunk_error:
  assumes sy: "0 < SIZE_Y cfg" and a: "a div nat (SIZE_Y cfg) \<le> length chunks"
  shows "for_each (layer_cell cfg features cp rp x z material) [a..<b] chunks
           \<noteq> Inl ChunkIndexOutOfRange"
proof (induction b)
  case 0
  then show ?case by simp
next
  case (Suc b)
  show ?case
  proof (cases "a \<le> b")
    case False
    then show ?thesis by simp
  next
    case True
    then have "[a..<Suc b] = [a..<b] @ [b]" by simp
    then have up: "for_each (layer_cell cfg features cp rp x z material) [a..<Suc b] chunks =
      (case for_each (layer_cell cfg features cp rp x z material) [a..<b] chunks of
         Inl e \<Rightarrow> Inl e
       | Inr s' \<Rightarrow> for_each (layer_cell cfg features cp rp x z material) [b] s')"
      by (simp only: for_each_append)
    show ?thesis
    proof (cases "for_each (layer_cell cfg features cp rp x z material) [a..<b] chunks")
      case (Inl e)
      with Suc.IH up show ?thesis by simp
    next
      case (Inr c1)
      note bl = band_loop_Inr [OF sy Inr]
      have "b div nat (SIZE_Y cfg) \<le> length c1"
      proof (cases "a = b")
        case True
        with Inr a show ?thesis by simp
      next
        case False
        with True have ab: "a < b" by simp
        with bl have "allocated cfg c1 (b - 1)" by blast
        from div_Suc_le [OF this] ab show ?thesis by simp
      qed
      from layer_cell_no_chunk_error [OF this, of features cp rp x z material] Inr up
      show ?thesis by (auto split: sum.splits)
    qed
  qed
qed

lemma band_loop_no_block_error:
  assumes x: "int (unsigned_of_int x) < SIZE_X cfg" and z: "int (unsigned_of_int z) < SIZE_Z cfg"
  shows "for_each (layer_cell cfg features cp rp x z material) ys chunks
           \<noteq> Inl BlockIndexOutOfRange"
proof (induction ys arbitrary: chunks)
  case Nil
  then show ?case by simp
next
  case (Cons y ys)
  have "layer_cell cfg features cp rp x z material y chunks \<noteq> Inl BlockIndexOutOfRange"
    using get_block_no_block_error [OF x z, of chunks cp y]
    by (auto simp: layer_cell_def split: sum.splits)
  with Cons.IH show ?case by (auto split: sum.splits)
qed

lemma band_tops_last:
  "band_tops ls bottom = Inr tops \<Longrightarrow> bottom < 2 ^ 32 - 1 \<Longrightarrow>
     bottom \<le> last (bottom # tops) \<and> last (bottom # tops) < 2 ^ 32 - 1"
proof -
  assume a: "band_tops ls bottom = Inr tops" and b: "bottom < 2 ^ 32 - 1"
  from band_tops_Inr [OF a b] have s: "sorted_wrt (<) (bottom # tops)"
    and u: "\<forall>t \<in> set tops. t < 2 ^ 32 - 1" by simp_all
  show ?thesis
  proof (cases "tops = []")
    case True
    with b show ?thesis by simp
  next
    case False
    then have m: "last tops \<in> set tops" by simp
    from s m have "bottom < last tops" by simp
    moreover from u m have "last tops < 2 ^ 32 - 1" by blast
    ultimately show ?thesis using False by simp
  qed
qed

lemma layers_loop_Inr:
  assumes sy: "0 < SIZE_Y cfg"
  shows "layers_loop cfg features cp rp x z ls bottom chunks = Inr (bottom', chunks') \<Longrightarrow>
         bottom < 2 ^ 32 - 1 \<Longrightarrow>
     (\<exists>tops. band_tops ls bottom = Inr tops \<and> bottom' = last (bottom # tops)) \<and>
     length chunks \<le> length chunks' \<and>
     (\<forall>x' y' z'. \<not> (x' = unsigned_of_int x \<and> z' = unsigned_of_int z \<and> bottom \<le> y' \<and> y' \<le> bottom')
        \<longrightarrow> material_at cfg chunks' (x', y', z') = material_at cfg chunks (x', y', z')) \<and>
     (ls \<noteq> [] \<longrightarrow> allocated cfg chunks' bottom' \<and>
        material_at cfg chunks' (unsigned_of_int x, bottom', unsigned_of_int z) =
          cell_material features (box_position cfg rp bottom') (fst (last ls)))"
proof (induction ls arbitrary: bottom chunks)
  case Nil
  then show ?case by simp
next
  case (Cons l ls)
  obtain material h where l: "l = (material, h)" by (cases l)
  from Cons.prems(1) l obtain t c1 where
    t: "band_top h bottom = Inr t"
    and c1: "for_each (layer_cell cfg features cp rp x z material) [bottom..<Suc t] chunks = Inr c1"
    and rest: "layers_loop cfg features cp rp x z ls t c1 = Inr (bottom', chunks')"
    by (auto split: sum.splits)
  from band_top_Inr [OF t Cons.prems(2)] have bt: "bottom < t" and t32: "t < 2 ^ 32 - 1" .
  note bl = band_loop_Inr [OF sy c1]
  note ih = Cons.IH [OF rest t32]
  from ih obtain tops where tops: "band_tops ls t = Inr tops" and b': "bottom' = last (t # tops)"
    by blast
  from band_tops_last [OF tops t32] b' have tb: "t \<le> bottom'" by simp
  have 1: "\<exists>tops. band_tops (l # ls) bottom = Inr tops \<and> bottom' = last (bottom # tops)"
    using t tops b' l by simp
  have 2: "length chunks \<le> length chunks'" using bl ih by linarith
  have 3: "\<forall>x' y' z'. \<not> (x' = unsigned_of_int x \<and> z' = unsigned_of_int z \<and> bottom \<le> y' \<and> y' \<le> bottom')
        \<longrightarrow> material_at cfg chunks' (x', y', z') = material_at cfg chunks (x', y', z')"
  proof (intro allI impI)
    fix x' y' z'
    assume n: "\<not> (x' = unsigned_of_int x \<and> z' = unsigned_of_int z \<and> bottom \<le> y' \<and> y' \<le> bottom')"
    with bt tb have n1: "\<not> (x' = unsigned_of_int x \<and> z' = unsigned_of_int z \<and> t \<le> y' \<and> y' \<le> bottom')"
      and n2: "\<not> (x' = unsigned_of_int x \<and> z' = unsigned_of_int z \<and> bottom \<le> y' \<and> y' < Suc t)"
      by auto
    from ih n1 have "material_at cfg chunks' (x', y', z') = material_at cfg c1 (x', y', z')"
      by blast
    also have "\<dots> = material_at cfg chunks (x', y', z')"
    proof -
      from bl have "material_at cfg c1 (x', y', z') =
        (if x' = unsigned_of_int x \<and> z' = unsigned_of_int z \<and> bottom \<le> y' \<and> y' < Suc t
         then cell_material features (box_position cfg rp y') material
         else material_at cfg chunks (x', y', z'))" by blast
      with n2 show ?thesis by (simp only: if_False)
    qed
    finally show "material_at cfg chunks' (x', y', z') = material_at cfg chunks (x', y', z')" .
  qed
  have 4: "allocated cfg chunks' bottom' \<and>
        material_at cfg chunks' (unsigned_of_int x, bottom', unsigned_of_int z) =
          cell_material features (box_position cfg rp bottom') (fst (last (l # ls)))"
  proof (cases "ls = []")
    case True
    with rest have e: "bottom' = t" "chunks' = c1" by simp_all
    from bl bt e True l show ?thesis by simp
  next
    case False
    with ih show ?thesis by simp
  qed
  from 1 2 3 4 show ?case by blast
qed

lemma layers_loop_no_chunk_error:
  assumes sy: "0 < SIZE_Y cfg"
  shows "bottom div nat (SIZE_Y cfg) \<le> length chunks \<Longrightarrow> bottom < 2 ^ 32 - 1 \<Longrightarrow>
     layers_loop cfg features cp rp x z ls bottom chunks \<noteq> Inl ChunkIndexOutOfRange"
proof (induction ls arbitrary: bottom chunks)
  case Nil
  then show ?case by simp
next
  case (Cons l ls)
  obtain material h where l: "l = (material, h)" by (cases l)
  show ?case
  proof (cases "band_top h bottom")
    case (Inl e)
    from band_top_Inl [OF Inl] have "e \<noteq> ChunkIndexOutOfRange" by auto
    with Inl l show ?thesis by simp
  next
    case (Inr t)
    from band_top_Inr [OF Inr Cons.prems(2)] have bt: "bottom < t" and t32: "t < 2 ^ 32 - 1" .
    show ?thesis
    proof (cases "for_each (layer_cell cfg features cp rp x z material) [bottom..<Suc t] chunks")
      case (Inl e)
      with band_loop_no_chunk_error [OF sy Cons.prems(1), of features cp rp x z material "Suc t"]
      have "e \<noteq> ChunkIndexOutOfRange" by auto
      with Inl \<open>band_top h bottom = Inr t\<close> l show ?thesis by simp
    next
      case c1: (Inr c1)
      from band_loop_Inr [OF sy c1] bt have "allocated cfg c1 t" by simp
      then have "t div nat (SIZE_Y cfg) \<le> length c1" by (simp add: allocated_def)
      from Cons.IH [OF this t32] c1 Inr l show ?thesis by simp
    qed
  qed
qed


subsection \<open>Facts about the loops over the block columns\<close>

lemma unsigned_of_int_nat: "0 \<le> i \<Longrightarrow> i < 2 ^ 32 \<Longrightarrow> unsigned_of_int i = nat i"
  by (simp add: unsigned_of_int_def)

lemma unsigned_of_int_inj:
  "0 \<le> i \<Longrightarrow> i < 2 ^ 32 \<Longrightarrow> 0 \<le> j \<Longrightarrow> j < 2 ^ 32 \<Longrightarrow>
     unsigned_of_int i = unsigned_of_int j \<longleftrightarrow> i = j"
  by (simp add: unsigned_of_int_nat eq_nat_nat_iff)

lemma layers_last: "fst (last (layers th)) = BLOCK_MATERIAL_GRASS" and layers_nonempty: "layers th \<noteq> []"
  by (simp_all add: layers_def)

lemma generate_block_column_Inr:
  assumes sy: "0 < SIZE_Y cfg"
    and r: "generate_block_column cfg features rp cp (x, z) (chunks, heights) = Inr (chunks', heights')"
  shows "\<exists>h. heights' = heights((x, z) \<mapsto> int h) \<and> h < 2 ^ 31 \<and> 0 < h \<and>
           grass_top cfg features (relative_position_of rp cp x z) = Inr h \<and>
           allocated cfg chunks' h \<and> length chunks \<le> length chunks' \<and>
           material_at cfg chunks' (unsigned_of_int x, h, unsigned_of_int z) =
             cell_material features (box_position cfg (relative_position_of rp cp x z) h)
               BLOCK_MATERIAL_GRASS \<and>
           (\<forall>x' y' z'. \<not> (x' = unsigned_of_int x \<and> z' = unsigned_of_int z \<and> y' \<le> h) \<longrightarrow>
              material_at cfg chunks' (x', y', z') = material_at cfg chunks (x', y', z'))"
proof -
  let ?rel = "relative_position_of rp cp x z"
  from r obtain th bottom b where
    th: "total_height_at cfg features ?rel = Inr th"
    and ll: "layers_loop cfg features cp ?rel x z (layers th) 0 chunks = Inr (bottom, chunks')"
    and b: "int_of_unsigned bottom = Inr b"
    and h': "heights' = heights((x, z) \<mapsto> b)"
    by (auto simp: generate_block_column_def Let_def split: sum.splits)
  have z32: "(0::nat) < 2 ^ 32 - 1" by simp
  note l = layers_loop_Inr [OF sy ll z32]
  from l obtain tops where tops: "band_tops (layers th) 0 = Inr tops"
    and bt: "bottom = last (0 # tops)" by blast
  from band_tops_Inr [OF tops z32] have len: "length tops = 6" and srt: "sorted_wrt (<) (0 # tops)"
    by (simp_all add: layers_def)
  from len have ne: "tops \<noteq> []" by auto
  then have "last tops \<in> set tops" by simp
  with srt bt ne have pos: "0 < bottom" by simp
  from b have b31: "bottom < 2 ^ 31" and bi: "b = int bottom"
    by (auto simp: int_of_unsigned_def split: if_splits)
  from l layers_last [of th] layers_nonempty [of th]
  have al: "allocated cfg chunks' bottom"
    and m: "material_at cfg chunks' (unsigned_of_int x, bottom, unsigned_of_int z) =
          cell_material features (box_position cfg ?rel bottom) BLOCK_MATERIAL_GRASS"
    by simp_all
  from l have len': "length chunks \<le> length chunks'" by blast
  from l have fr: "\<forall>x' y' z'. \<not> (x' = unsigned_of_int x \<and> z' = unsigned_of_int z \<and> y' \<le> bottom) \<longrightarrow>
              material_at cfg chunks' (x', y', z') = material_at cfg chunks (x', y', z')"
    by simp
  from th tops bt ne have "grass_top cfg features ?rel = Inr bottom"
    by (simp add: grass_top_def)
  with h' bi b31 pos al len' m fr show ?thesis by blast
qed

lemma columns_loop_Inr:
  assumes sy: "0 < SIZE_Y cfg"
  shows "for_each (generate_block_column cfg features rp cp) xzs (chunks, heights)
           = Inr (chunks', heights') \<Longrightarrow>
         distinct xzs \<Longrightarrow>
         (\<forall>xz \<in> set xzs. 0 \<le> fst xz \<and> fst xz < 2 ^ 32 \<and> 0 \<le> snd xz \<and> snd xz < 2 ^ 32) \<Longrightarrow>
     (\<forall>xz \<in> set xzs. \<exists>h. heights' xz = Some (int h) \<and> h < 2 ^ 31 \<and> 0 < h \<and>
         grass_top cfg features (relative_position_of rp cp (fst xz) (snd xz)) = Inr h \<and>
         allocated cfg chunks' h \<and>
         material_at cfg chunks' (unsigned_of_int (fst xz), h, unsigned_of_int (snd xz)) =
           cell_material features
             (box_position cfg (relative_position_of rp cp (fst xz) (snd xz)) h)
             BLOCK_MATERIAL_GRASS \<and>
         (\<forall>y. h < y \<longrightarrow>
            material_at cfg chunks' (unsigned_of_int (fst xz), y, unsigned_of_int (snd xz)) =
            material_at cfg chunks (unsigned_of_int (fst xz), y, unsigned_of_int (snd xz)))) \<and>
     (\<forall>xz. xz \<notin> set xzs \<longrightarrow> heights' xz = heights xz) \<and>
     (\<forall>x' y' z'. (\<forall>xz \<in> set xzs. \<not> (x' = unsigned_of_int (fst xz) \<and> z' = unsigned_of_int (snd xz)))
        \<longrightarrow> material_at cfg chunks' (x', y', z') = material_at cfg chunks (x', y', z')) \<and>
     length chunks \<le> length chunks'"
proof (induction xzs arbitrary: chunks heights)
  case Nil
  then show ?case by simp
next
  case (Cons a xzs)
  obtain x z where a: "a = (x, z)" by (cases a)
  from Cons.prems(1) a obtain c1 h1 where
    first: "generate_block_column cfg features rp cp (x, z) (chunks, heights) = Inr (c1, h1)"
    and rest: "for_each (generate_block_column cfg features rp cp) xzs (c1, h1)
                 = Inr (chunks', heights')"
    by (auto split: sum.splits)
  from Cons.prems(2) have d: "distinct xzs" and an: "a \<notin> set xzs" by simp_all
  from Cons.prems(3) have rng: "\<forall>xz \<in> set xzs. 0 \<le> fst xz \<and> fst xz < 2 ^ 32 \<and> 0 \<le> snd xz \<and> snd xz < 2 ^ 32"
    and arng: "0 \<le> x" "x < 2 ^ 32" "0 \<le> z" "z < 2 ^ 32" using a by simp_all
  note ih = Cons.IH [OF rest d rng]
  from generate_block_column_Inr [OF sy first] obtain h where
    h1: "h1 = heights((x, z) \<mapsto> int h)" and h31: "h < 2 ^ 31" and h0: "0 < h"
    and gt: "grass_top cfg features (relative_position_of rp cp x z) = Inr h"
    and al: "allocated cfg c1 h" and len: "length chunks \<le> length c1"
    and m: "material_at cfg c1 (unsigned_of_int x, h, unsigned_of_int z) =
             cell_material features (box_position cfg (relative_position_of rp cp x z) h)
               BLOCK_MATERIAL_GRASS"
    and fr: "\<forall>x' y' z'. \<not> (x' = unsigned_of_int x \<and> z' = unsigned_of_int z \<and> y' \<le> h) \<longrightarrow>
              material_at cfg c1 (x', y', z') = material_at cfg chunks (x', y', z')"
    by blast
  have other: "\<forall>xz \<in> set xzs. \<not> (unsigned_of_int x = unsigned_of_int (fst xz) \<and>
                  unsigned_of_int z = unsigned_of_int (snd xz))"
  proof
    fix xz assume xz: "xz \<in> set xzs"
    with an a have "xz \<noteq> (x, z)" by auto
    then have "x \<noteq> fst xz \<or> z \<noteq> snd xz" by (cases xz) auto
    with rng xz arng show "\<not> (unsigned_of_int x = unsigned_of_int (fst xz) \<and>
                  unsigned_of_int z = unsigned_of_int (snd xz))"
      by (auto simp: unsigned_of_int_inj)
  qed
  from ih len have 4: "length chunks \<le> length chunks'" by linarith
  have 3: "\<forall>x' y' z'. (\<forall>xz \<in> set (a # xzs). \<not> (x' = unsigned_of_int (fst xz) \<and> z' = unsigned_of_int (snd xz)))
        \<longrightarrow> material_at cfg chunks' (x', y', z') = material_at cfg chunks (x', y', z')"
  proof (intro allI impI)
    fix x' y' z'
    assume n: "\<forall>xz \<in> set (a # xzs). \<not> (x' = unsigned_of_int (fst xz) \<and> z' = unsigned_of_int (snd xz))"
    then have "material_at cfg chunks' (x', y', z') = material_at cfg c1 (x', y', z')"
      using ih by simp
    also from n a fr have "\<dots> = material_at cfg chunks (x', y', z')" by auto
    finally show "material_at cfg chunks' (x', y', z') = material_at cfg chunks (x', y', z')" .
  qed
  have 2: "\<forall>xz. xz \<notin> set (a # xzs) \<longrightarrow> heights' xz = heights xz"
    using ih h1 a by auto
  have 1: "\<forall>xz \<in> set (a # xzs). \<exists>h. heights' xz = Some (int h) \<and> h < 2 ^ 31 \<and> 0 < h \<and>
         grass_top cfg features (relative_position_of rp cp (fst xz) (snd xz)) = Inr h \<and>
         allocated cfg chunks' h \<and>
         material_at cfg chunks' (unsigned_of_int (fst xz), h, unsigned_of_int (snd xz)) =
           cell_material features
             (box_position cfg (relative_position_of rp cp (fst xz) (snd xz)) h)
             BLOCK_MATERIAL_GRASS \<and>
         (\<forall>y. h < y \<longrightarrow>
            material_at cfg chunks' (unsigned_of_int (fst xz), y, unsigned_of_int (snd xz)) =
            material_at cfg chunks (unsigned_of_int (fst xz), y, unsigned_of_int (snd xz)))"
  proof
    fix xz assume xz: "xz \<in> set (a # xzs)"
    show "\<exists>h. heights' xz = Some (int h) \<and> h < 2 ^ 31 \<and> 0 < h \<and>
         grass_top cfg features (relative_position_of rp cp (fst xz) (snd xz)) = Inr h \<and>
         allocated cfg chunks' h \<and>
         material_at cfg chunks' (unsigned_of_int (fst xz), h, unsigned_of_int (snd xz)) =
           cell_material features
             (box_position cfg (relative_position_of rp cp (fst xz) (snd xz)) h)
             BLOCK_MATERIAL_GRASS \<and>
         (\<forall>y. h < y \<longrightarrow>
            material_at cfg chunks' (unsigned_of_int (fst xz), y, unsigned_of_int (snd xz)) =
            material_at cfg chunks (unsigned_of_int (fst xz), y, unsigned_of_int (snd xz)))"
    proof (cases "xz = a")
      case True
      from ih an have hh: "heights' a = h1 a" by blast
      have same: "\<And>y. material_at cfg chunks' (unsigned_of_int x, y, unsigned_of_int z) =
                     material_at cfg c1 (unsigned_of_int x, y, unsigned_of_int z)"
        using ih other by simp
      from al ih have al': "allocated cfg chunks' h" by (simp add: allocated_def)
      from fr have above: "\<forall>y. h < y \<longrightarrow> material_at cfg c1 (unsigned_of_int x, y, unsigned_of_int z) =
                     material_at cfg chunks (unsigned_of_int x, y, unsigned_of_int z)" by simp
      from hh h1 a h31 h0 gt al' m same above True show ?thesis by auto
    next
      case False
      with xz have xz': "xz \<in> set xzs" by simp
      with ih obtain k where
        k: "heights' xz = Some (int k)" "k < 2 ^ 31" "0 < k"
        "grass_top cfg features (relative_position_of rp cp (fst xz) (snd xz)) = Inr k"
        "allocated cfg chunks' k"
        "material_at cfg chunks' (unsigned_of_int (fst xz), k, unsigned_of_int (snd xz)) =
           cell_material features
             (box_position cfg (relative_position_of rp cp (fst xz) (snd xz)) k)
             BLOCK_MATERIAL_GRASS"
        and ab: "\<forall>y. k < y \<longrightarrow>
            material_at cfg chunks' (unsigned_of_int (fst xz), y, unsigned_of_int (snd xz)) =
            material_at cfg c1 (unsigned_of_int (fst xz), y, unsigned_of_int (snd xz))"
        by blast
      from other xz' fr have "\<And>y. material_at cfg c1 (unsigned_of_int (fst xz), y, unsigned_of_int (snd xz)) =
            material_at cfg chunks (unsigned_of_int (fst xz), y, unsigned_of_int (snd xz))"
        by (metis (no_types, lifting))
      with ab have "\<forall>y. k < y \<longrightarrow>
            material_at cfg chunks' (unsigned_of_int (fst xz), y, unsigned_of_int (snd xz)) =
            material_at cfg chunks (unsigned_of_int (fst xz), y, unsigned_of_int (snd xz))" by simp
      with k show ?thesis by blast
    qed
  qed
  from 1 2 3 4 show ?case by blast
qed

lemma set_footprint:
  "set (footprint cfg) = {(x, z). 0 \<le> x \<and> x < SIZE_X cfg \<and> 0 \<le> z \<and> z < SIZE_Z cfg}"
  by (auto simp: footprint_def)

lemma distinct_footprint: "distinct (footprint cfg)"
  by (simp add: footprint_def distinct_product)


subsection \<open>The layering returns\<close>

lemma sdiv_nonneg: "0 \<le> a \<Longrightarrow> 0 < b \<Longrightarrow> (a::int) sdiv b = a div b"
  by (cases "a = 0") (simp_all add: signed_divide_int_def)


lemma get_block_total:
  assumes "h div nat (SIZE_Y cfg) \<le> length chunks" and "int x < SIZE_X cfg"
    and "int z < SIZE_Z cfg" and "h < 2 ^ 31"
  shows "\<exists>r. get_block cfg chunks cp x z h = Inr r"
  using assms by (auto simp: get_block_def Let_def int_of_unsigned_def)

lemma layer_cell_total:
  assumes "y div nat (SIZE_Y cfg) \<le> length chunks" and "int (unsigned_of_int x) < SIZE_X cfg"
    and "int (unsigned_of_int z) < SIZE_Z cfg" and "y < 2 ^ 31"
  shows "\<exists>r. layer_cell cfg features cp rp x z material y chunks = Inr r"
proof -
  from get_block_total [OF assms] obtain r where
    "get_block cfg chunks cp (unsigned_of_int x) (unsigned_of_int z) y = Inr r" by blast
  then show ?thesis by (cases r) (simp add: layer_cell_def)
qed

lemma band_loop_total:
  assumes sy: "0 < SIZE_Y cfg" and a: "a div nat (SIZE_Y cfg) \<le> length chunks"
    and x: "int (unsigned_of_int x) < SIZE_X cfg" and z: "int (unsigned_of_int z) < SIZE_Z cfg"
  shows "b \<le> 2 ^ 31 \<Longrightarrow>
     \<exists>r. for_each (layer_cell cfg features cp rp x z material) [a..<b] chunks = Inr r"
proof (induction b)
  case 0
  then show ?case by simp
next
  case (Suc b)
  show ?case
  proof (cases "a \<le> b")
    case False
    then show ?thesis by simp
  next
    case True
    then have "[a..<Suc b] = [a..<b] @ [b]" by simp
    then have up: "for_each (layer_cell cfg features cp rp x z material) [a..<Suc b] chunks =
      (case for_each (layer_cell cfg features cp rp x z material) [a..<b] chunks of
         Inl e \<Rightarrow> Inl e
       | Inr s' \<Rightarrow> for_each (layer_cell cfg features cp rp x z material) [b] s')"
      by (simp only: for_each_append)
    from Suc obtain c1 where
      c1: "for_each (layer_cell cfg features cp rp x z material) [a..<b] chunks = Inr c1"
      by auto
    note bl = band_loop_Inr [OF sy c1]
    have "b div nat (SIZE_Y cfg) \<le> length c1"
    proof (cases "a = b")
      case True
      with c1 a show ?thesis by simp
    next
      case False
      with \<open>a \<le> b\<close> have ab: "a < b" by simp
      with bl have "allocated cfg c1 (b - 1)" by blast
      from div_Suc_le [OF this] ab show ?thesis by simp
    qed
    moreover from Suc.prems have "b < 2 ^ 31" by simp
    ultimately obtain r where "layer_cell cfg features cp rp x z material b c1 = Inr r"
      using layer_cell_total [OF _ x z] by blast
    with up c1 show ?thesis by simp
  qed
qed

lemma layers_loop_total:
  assumes sy: "0 < SIZE_Y cfg"
    and x: "int (unsigned_of_int x) < SIZE_X cfg" and z: "int (unsigned_of_int z) < SIZE_Z cfg"
  shows "band_tops ls bottom = Inr tops \<Longrightarrow> \<forall>t \<in> set tops. t < 2 ^ 31 \<Longrightarrow>
         bottom div nat (SIZE_Y cfg) \<le> length chunks \<Longrightarrow> bottom < 2 ^ 32 - 1 \<Longrightarrow>
     \<exists>r. layers_loop cfg features cp rp x z ls bottom chunks = Inr r"
proof (induction ls arbitrary: bottom chunks tops)
  case Nil
  then show ?case by simp
next
  case (Cons l ls)
  obtain material h where l: "l = (material, h)" by (cases l)
  from Cons.prems(1) l obtain t ts where
    t: "band_top h bottom = Inr t" and ts: "band_tops ls t = Inr ts" and tops: "tops = t # ts"
    by (auto split: sum.splits)
  from band_top_Inr [OF t Cons.prems(4)] have bt: "bottom < t" and t32: "t < 2 ^ 32 - 1" .
  from Cons.prems(2) tops have t31: "Suc t \<le> 2 ^ 31" and ts31: "\<forall>t \<in> set ts. t < 2 ^ 31"
    by simp_all
  from band_loop_total [OF sy Cons.prems(3) x z t31] obtain c1 where
    c1: "for_each (layer_cell cfg features cp rp x z material) [bottom..<Suc t] chunks = Inr c1"
    by blast
  from band_loop_Inr [OF sy c1] bt have "allocated cfg c1 t" by simp
  then have "t div nat (SIZE_Y cfg) \<le> length c1" by (simp add: allocated_def)
  from Cons.IH [OF ts ts31 this t32] t c1 l show ?case by simp
qed


lemma tops_sorted_le_last:
  assumes "band_tops ls bottom = Inr tops" and "bottom < 2 ^ 32 - 1" and "t \<in> set tops"
  shows "t \<le> last tops"
proof -
  from band_tops_Inr [OF assms(1,2)] have s: "sorted_wrt (<) tops" by simp
  from assms(3) obtain i where i: "i < length tops" "tops ! i = t"
    by (auto simp: in_set_conv_nth)
  from assms(3) have ne: "tops \<noteq> []" by auto
  then have l: "last tops = tops ! (length tops - 1)" by (simp add: last_conv_nth)
  show ?thesis
  proof (cases "i = length tops - 1")
    case True
    with i l show ?thesis by simp
  next
    case False
    with i have lt: "i < length tops - 1" by simp
    from ne have "length tops - 1 < length tops" by simp
    from sorted_wrt_nth_less [OF s lt this] have "tops ! i < tops ! (length tops - 1)" .
    with i l show ?thesis by simp
  qed
qed

lemma generate_block_column_total:
  assumes sy: "0 < SIZE_Y cfg"
    and x: "int (unsigned_of_int x) < SIZE_X cfg" and z: "int (unsigned_of_int z) < SIZE_Z cfg"
    and g: "grass_top cfg features (relative_position_of rp cp x z) = Inr h" and h: "h < 2 ^ 31"
  shows "\<exists>r. generate_block_column cfg features rp cp (x, z) (chunks, heights) = Inr r"
proof -
  let ?rel = "relative_position_of rp cp x z"
  from g obtain th tops where th: "total_height_at cfg features ?rel = Inr th"
    and tops: "band_tops (layers th) 0 = Inr tops" and hl: "h = last tops"
    by (auto simp: grass_top_def split: sum.splits)
  have z32: "(0::nat) < 2 ^ 32 - 1" by simp
  have "\<forall>t \<in> set tops. t < 2 ^ 31"
    using tops_sorted_le_last [OF tops z32] h hl by fastforce
  from layers_loop_total [OF sy x z tops this _ z32, of chunks features cp ?rel]
  obtain bottom c' where
    ll: "layers_loop cfg features cp ?rel x z (layers th) 0 chunks = Inr (bottom, c')"
    by auto
  from layers_loop_Inr [OF sy ll z32] tops have "bottom = last (0 # tops)" by auto
  moreover from band_tops_Inr [OF tops z32] have "tops \<noteq> []" by (auto simp: layers_def)
  ultimately have "bottom = h" using hl by simp
  with h have "int_of_unsigned bottom = Inr (int bottom)" by (simp add: int_of_unsigned_def)
  with th ll show ?thesis by (simp add: generate_block_column_def)
qed

lemma columns_loop_total:
  assumes sy: "0 < SIZE_Y cfg"
  shows "(\<forall>xz \<in> set xzs. int (unsigned_of_int (fst xz)) < SIZE_X cfg \<and>
            int (unsigned_of_int (snd xz)) < SIZE_Z cfg \<and>
            (\<exists>h. grass_top cfg features (relative_position_of rp cp (fst xz) (snd xz)) = Inr h \<and>
                 h < 2 ^ 31)) \<Longrightarrow>
     \<exists>r. for_each (generate_block_column cfg features rp cp) xzs s = Inr r"
proof (induction xzs arbitrary: s)
  case Nil
  then show ?case by simp
next
  case (Cons a xzs)
  obtain x z where a: "a = (x, z)" by (cases a)
  obtain chunks heights where s: "s = (chunks, heights)" by (cases s)
  from Cons.prems a obtain h where
    "int (unsigned_of_int x) < SIZE_X cfg" "int (unsigned_of_int z) < SIZE_Z cfg"
    "grass_top cfg features (relative_position_of rp cp x z) = Inr h" "h < 2 ^ 31"
    by auto
  from generate_block_column_total [OF sy this] obtain r where
    r: "generate_block_column cfg features rp cp (x, z) (chunks, heights) = Inr r" by blast
  from Cons.prems have "\<forall>xz \<in> set xzs. int (unsigned_of_int (fst xz)) < SIZE_X cfg \<and>
            int (unsigned_of_int (snd xz)) < SIZE_Z cfg \<and>
            (\<exists>h. grass_top cfg features (relative_position_of rp cp (fst xz) (snd xz)) = Inr h \<and>
                 h < 2 ^ 31)" by simp
  from Cons.IH [OF this, of r] r a s show ?case by simp
qed

lemma footprint_unsigned:
  assumes "valid_config cfg" and "(x, z) \<in> set (footprint cfg)"
  shows "unsigned_of_int x = nat x" and "unsigned_of_int z = nat z"
    and "0 \<le> x" and "x < SIZE_X cfg" and "0 \<le> z" and "z < SIZE_Z cfg"
    and "x < 2 ^ 32" and "z < 2 ^ 32"
  using assms by (auto simp: set_footprint valid_config_def unsigned_of_int_nat)

lemma interpolate_flat [simp]: "interpolate (flat_patch v) position = v"
  by (simp add: interpolate_def flat_patch_def blend_def)

lemma valid_example_config: "valid_config example_config"
  by (simp add: valid_config_def example_config_def)

lemma grass_top_flat:
  assumes "(x, z) \<in> set (footprint example_config)"
  shows "grass_top example_config (flat_features 0 d) (relative_position_of (0, 0) (0, 0) x z)
           = Inr 95"
proof -
  from assms have x: "0 \<le> x" "x < 16" and z: "0 \<le> z" "z < 16"
    by (auto simp: set_footprint example_config_def)
  then have "x div 64 = 0" "z div 64 = 0" by simp_all
  with x z have oi: "octave_index example_config (x, z) = (0, 0)"
    by (simp add: octave_index_def example_config_def sdiv_nonneg)
  have th: "total_height_at example_config (flat_features 0 d) (x, z) = Inr 32"
    by (simp add: total_height_at_def oi get_octave_patch_def flat_features_def
        get_fundamental_patch_def Let_def)
  have "band_tops (layers 32) 0 = Inr [1, 28, 84, 90, 94, 95]"
    by (simp add: layers_def band_top_def Scalar_of_unsigned_def roundf_def
        unsigned_of_Scalar_def Let_def)
  with th show ?thesis by (simp add: grass_top_def relative_position_of_def)
qed


lemma material_at_Nil [simp]: "material_at cfg [] c = BLOCK_MATERIAL_AIR"
  by (cases c) (simp add: material_at_def allocated_def)

lemma generate_chunk_column_Inr:
  assumes v: "valid_config cfg"
    and r: "generate_chunk_column cfg [] features rp cp heights = Inr (chunks', heights')"
    and m: "(x, z) \<in> set (footprint cfg)"
  shows "\<exists>h. heights' (x, z) = Some (int h) \<and>
           grass_top cfg features (relative_position_of rp cp x z) = Inr h \<and>
           allocated cfg chunks' h \<and>
           material_at cfg chunks' (nat x, h, nat z) =
             (if carved features (box_position cfg (relative_position_of rp cp x z) h)
              then BLOCK_MATERIAL_AIR else BLOCK_MATERIAL_GRASS) \<and>
           (\<forall>y. h < y \<longrightarrow> material_at cfg chunks' (nat x, y, nat z) = BLOCK_MATERIAL_AIR)"
proof -
  from v have sy: "0 < SIZE_Y cfg" by (simp add: valid_config_def)
  have rng: "\<forall>xz \<in> set (footprint cfg).
      0 \<le> fst xz \<and> fst xz < 2 ^ 32 \<and> 0 \<le> snd xz \<and> snd xz < 2 ^ 32"
    using footprint_unsigned [OF v] by auto
  from r have "for_each (generate_block_column cfg features rp cp) (footprint cfg) ([], heights)
                 = Inr (chunks', heights')"
    by (simp add: generate_chunk_column_def)
  from columns_loop_Inr [OF sy this distinct_footprint rng] m
  obtain h where h: "heights' (x, z) = Some (int h)"
    "grass_top cfg features (relative_position_of rp cp x z) = Inr h"
    "allocated cfg chunks' h"
    "material_at cfg chunks' (unsigned_of_int x, h, unsigned_of_int z) =
       cell_material features (box_position cfg (relative_position_of rp cp x z) h)
         BLOCK_MATERIAL_GRASS"
    "\<forall>y. h < y \<longrightarrow> material_at cfg chunks' (unsigned_of_int x, y, unsigned_of_int z) =
        material_at cfg [] (unsigned_of_int x, y, unsigned_of_int z)"
    by fastforce
  from footprint_unsigned [OF v m] have u: "unsigned_of_int x = nat x" "unsigned_of_int z = nat z"
    by simp_all
  from h u show ?thesis by (auto simp: cell_material_def)
qed

lemma generate_chunk_column_total:
  assumes v: "valid_config cfg"
    and g: "\<forall>xz \<in> set (footprint cfg).
      \<exists>h. grass_top cfg features (relative_position_of rp cp (fst xz) (snd xz)) = Inr h \<and> h < 2 ^ 31"
  shows "\<exists>chunks' heights'.
           generate_chunk_column cfg chunks features rp cp heights = Inr (chunks', heights')"
proof -
  from v have sy: "0 < SIZE_Y cfg" by (simp add: valid_config_def)
  have "\<forall>xz \<in> set (footprint cfg). int (unsigned_of_int (fst xz)) < SIZE_X cfg \<and>
            int (unsigned_of_int (snd xz)) < SIZE_Z cfg \<and>
            (\<exists>h. grass_top cfg features (relative_position_of rp cp (fst xz) (snd xz)) = Inr h \<and>
                 h < 2 ^ 31)"
  proof
    fix xz assume xz: "xz \<in> set (footprint cfg)"
    obtain x z where p: "xz = (x, z)" by (cases xz)
    from footprint_unsigned [OF v] xz p g
    show "int (unsigned_of_int (fst xz)) < SIZE_X cfg \<and>
            int (unsigned_of_int (snd xz)) < SIZE_Z cfg \<and>
            (\<exists>h. grass_top cfg features (relative_position_of rp cp (fst xz) (snd xz)) = Inr h \<and>
                 h < 2 ^ 31)"
      by auto
  qed
  from columns_loop_total [OF sy this, of "(chunks, heights)"]
  show ?thesis by (auto simp: generate_chunk_column_def)
qed

lemma flat_run:
  "\<exists>chunks' heights'. generate_chunk_column example_config [] (flat_features 0 d) (0, 0) (0, 0)
      Map.empty = Inr (chunks', heights')"
proof (rule generate_chunk_column_total [OF valid_example_config])
  show "\<forall>xz \<in> set (footprint example_config).
      \<exists>h. grass_top example_config (flat_features 0 d)
             (relative_position_of (0, 0) (0, 0) (fst xz) (snd xz)) = Inr h \<and> h < 2 ^ 31"
    using grass_top_flat by auto
qed

lemma origin_in_footprint: "(0, 0) \<in> set (footprint example_config)"
  by (simp add: set_footprint example_config_def)

lemma carved_flat: "carved (flat_features v d) position \<longleftrightarrow> 0.45 < d \<and> d < 0.55"
  by (auto simp: carved_def flat_features_def get_box_def Let_def)

subsection \<open>Facts about loops and about blocks\<close>

lemma for_each_never:
  assumes "\<And>a s. a \<in> set xs \<Longrightarrow> body a s \<noteq> Inl e"
  shows "for_each body xs s \<noteq> Inl e"
  using assms by (induction xs arbitrary: s) (auto split: sum.splits)

lemma for_each_rel:
  assumes refl: "\<And>s. R s s"
    and trans: "\<And>a b c. R a b \<Longrightarrow> R b c \<Longrightarrow> R a c"
    and step: "\<And>a s s'. a \<in> set xs \<Longrightarrow> body a s = Inr s' \<Longrightarrow> R s s'"
  shows "for_each body xs s = Inr s' \<Longrightarrow> R s s'"
  using step
proof (induction xs arbitrary: s)
  case Nil
  then show ?case using refl by simp
next
  case (Cons a xs)
  from Cons.prems(1) obtain s1 where a: "body a s = Inr s1" and r: "for_each body xs s1 = Inr s'"
    by (auto split: sum.splits)
  from Cons.prems(2) [of a s s1] a have "R s s1" by simp
  moreover have "\<And>a' s s'. a' \<in> set xs \<Longrightarrow> body a' s = Inr s' \<Longrightarrow> R s s'"
    using Cons.prems(2) by (meson list.set_intros(2))
  from Cons.IH [OF r this] have "R s1 s'" .
  ultimately show ?case by (rule trans)
qed

lemma for_each_errors:
  assumes step: "\<And>a s e. a \<in> set xs \<Longrightarrow> I s \<Longrightarrow> body a s = Inl e \<Longrightarrow> E e"
    and inv: "\<And>a s s'. a \<in> set xs \<Longrightarrow> I s \<Longrightarrow> body a s = Inr s' \<Longrightarrow> I s'"
  shows "I s \<Longrightarrow> (for_each body xs s = Inl e \<longrightarrow> E e) \<and> (for_each body xs s = Inr s' \<longrightarrow> I s')"
  using step inv
proof (induction xs arbitrary: s)
  case Nil
  then show ?case by auto
next
  case (Cons a xs)
  show ?case
  proof (cases "body a s")
    case (Inl e')
    with Cons.prems(2) [of a s e'] Cons.prems(1) show ?thesis by auto
  next
    case (Inr s1)
    with Cons.prems(3) [of a s s1] Cons.prems(1) have i1: "I s1" by simp
    have e: "\<And>a' s e. a' \<in> set xs \<Longrightarrow> I s \<Longrightarrow> body a' s = Inl e \<Longrightarrow> E e"
      using Cons.prems(2) by (meson list.set_intros(2))
    have i: "\<And>a' s s'. a' \<in> set xs \<Longrightarrow> I s \<Longrightarrow> body a' s = Inr s' \<Longrightarrow> I s'"
      using Cons.prems(3) by (meson list.set_intros(2))
    from Cons.IH [OF i1 e i] Inr show ?thesis by simp
  qed
qed

lemma get_block_Inl:
  assumes "get_block cfg chunks cp x z h = Inl e"
  shows "(e = ChunkIndexOutOfRange \<and> length chunks < h div nat (SIZE_Y cfg)) \<or>
         (e = BlockIndexOutOfRange \<and> \<not> (int x < SIZE_X cfg \<and> int z < SIZE_Z cfg)) \<or>
         (e = IntegerOutOfRange \<and> 2 ^ 31 \<le> h)"
  using assms
  by (auto simp: get_block_def Let_def int_of_unsigned_def split: sum.splits if_splits)

lemma get_material_at:
  assumes "get_block cfg chunks cp x z h = Inr (chunks', block)"
  shows "get_material chunks' block = material_at cfg chunks (x, h, z)"
proof -
  note g = get_block_Inr [OF assms]
  from g(1,4) have "get_material chunks' block = material_at cfg chunks' (x, h, z)"
    by (simp add: get_material_def material_at_def)
  with g(7) show ?thesis by simp
qed

lemma set_material_at:
  assumes sy: "0 < SIZE_Y cfg" and "get_block cfg chunks cp x z h = Inr (chunks', block)"
  shows "material_at cfg (set_material chunks' block m) = (material_at cfg chunks)((x, h, z) := m)"
proof -
  note g = get_block_Inr [OF assms(2)]
  from material_at_set_material [OF sy g(4)] g(1,7) show ?thesis by simp
qed


subsection \<open>Facts about the vegetation pass\<close>

lemma tree_writes_refl: "tree_writes cfg tx tz chunks chunks"
  by (simp add: tree_writes_def)

lemma tree_writes_trans:
  assumes "tree_writes cfg tx tz a b" and "tree_writes cfg tx tz b c"
  shows "tree_writes cfg tx tz a c"
  unfolding tree_writes_def
proof
  fix p
  from assms(1) have 1: "material_at cfg b p = material_at cfg a p \<or>
          (material_at cfg a p = BLOCK_MATERIAL_AIR \<and>
           material_at cfg b p = BLOCK_MATERIAL_TREE_LEAF) \<or>
          (fst p = tx \<and> snd (snd p) = tz \<and> material_at cfg b p = BLOCK_MATERIAL_TREE_TRUNK)"
    unfolding tree_writes_def by blast
  from assms(2) have 2: "material_at cfg c p = material_at cfg b p \<or>
          (material_at cfg b p = BLOCK_MATERIAL_AIR \<and>
           material_at cfg c p = BLOCK_MATERIAL_TREE_LEAF) \<or>
          (fst p = tx \<and> snd (snd p) = tz \<and> material_at cfg c p = BLOCK_MATERIAL_TREE_TRUNK)"
    unfolding tree_writes_def by blast
  from 1 2 show "material_at cfg c p = material_at cfg a p \<or>
          (material_at cfg a p = BLOCK_MATERIAL_AIR \<and>
           material_at cfg c p = BLOCK_MATERIAL_TREE_LEAF) \<or>
          (fst p = tx \<and> snd (snd p) = tz \<and> material_at cfg c p = BLOCK_MATERIAL_TREE_TRUNK)"
    by auto
qed

lemma leaf_cell_writes:
  assumes sy: "0 < SIZE_Y cfg" and r: "leaf_cell cfg cp x z bottom y uv chunks = Inr chunks'"
  shows "tree_writes cfg tx tz chunks chunks'"
proof -
  obtain u v where uv: "uv = (u, v)" by (cases uv)
  show ?thesis
  proof (cases "u \<noteq> 0 \<or> v \<noteq> 0")
    case False
    with r uv show ?thesis by (simp add: leaf_cell_def tree_writes_refl)
  next
    case True
    with r uv obtain c1 block where
      g: "get_block cfg chunks cp (unsigned_of_int (x + u)) (unsigned_of_int (z + v))
            (unsigned_of_int (bottom + y)) = Inr (c1, block)"
      and c: "chunks' = (if get_material c1 block = BLOCK_MATERIAL_AIR
                         then set_material c1 block BLOCK_MATERIAL_TREE_LEAF else c1)"
      by (auto simp: leaf_cell_def split: sum.splits if_splits)
    note gm = get_material_at [OF g]
    note sm = set_material_at [OF sy g, of BLOCK_MATERIAL_TREE_LEAF]
    note gb = get_block_Inr [OF g]
    show ?thesis
    proof (cases "get_material c1 block = BLOCK_MATERIAL_AIR")
      case True
      with c sm gm show ?thesis by (auto simp: tree_writes_def)
    next
      case False
      with c gb(7) show ?thesis by (simp add: tree_writes_def)
    qed
  qed
qed

lemma trunk_level_writes:
  assumes sy: "0 < SIZE_Y cfg"
    and r: "trunk_level cfg cp x z height radius bottom y chunks = Inr chunks'"
  shows "tree_writes cfg (unsigned_of_int x) (unsigned_of_int z) chunks chunks'"
proof -
  from r obtain c1 block where
    g: "get_block cfg chunks cp (unsigned_of_int x) (unsigned_of_int z)
          (unsigned_of_int (bottom + y)) = Inr (c1, block)"
    by (auto simp: trunk_level_def split: sum.splits)
  let ?trunk = "set_material c1 block BLOCK_MATERIAL_TREE_TRUNK"
  from set_material_at [OF sy g, of BLOCK_MATERIAL_TREE_TRUNK]
  have t: "tree_writes cfg (unsigned_of_int x) (unsigned_of_int z) chunks ?trunk"
    by (auto simp: tree_writes_def)
  show ?thesis
  proof (cases "y - (height - radius - 1) \<ge> 0")
    case False
    with r g t show ?thesis by (simp add: trunk_level_def Let_def)
  next
    case True
    with r g have l: "for_each (leaf_cell cfg cp x z bottom y)
        (canopy_offsets radius (y - (height - radius - 1))) ?trunk = Inr chunks'"
      by (simp add: trunk_level_def Let_def)
    have "tree_writes cfg (unsigned_of_int x) (unsigned_of_int z) ?trunk chunks'"
      by (rule for_each_rel [OF _ _ _ l, of "tree_writes cfg (unsigned_of_int x) (unsigned_of_int z)"])
         (auto intro: tree_writes_refl tree_writes_trans leaf_cell_writes [OF sy])
    with t show ?thesis by (rule tree_writes_trans)
  qed
qed

lemma grow_tree_writes:
  assumes sy: "0 < SIZE_Y cfg"
    and r: "grow_tree cfg cp heights x z height radius chunks = Inr chunks'"
  shows "\<exists>bottom. heights (x, z) = Some bottom \<and>
           tree_writes cfg (unsigned_of_int x) (unsigned_of_int z) chunks chunks' \<and>
           (material_at cfg chunks (unsigned_of_int x, unsigned_of_int bottom, unsigned_of_int z)
              \<noteq> BLOCK_MATERIAL_GRASS \<longrightarrow>
            material_at cfg chunks' = material_at cfg chunks)"
proof -
  from r obtain bottom c1 block where
    b: "heights (x, z) = Some bottom"
    and g: "get_block cfg chunks cp (unsigned_of_int x) (unsigned_of_int z)
              (unsigned_of_int bottom) = Inr (c1, block)"
    by (auto simp: grow_tree_def split: option.splits sum.splits)
  note gm = get_material_at [OF g]
  note gb = get_block_Inr [OF g]
  from gb(7) have t1: "tree_writes cfg (unsigned_of_int x) (unsigned_of_int z) chunks c1"
    by (simp add: tree_writes_def)
  show ?thesis
  proof (cases "get_material c1 block = BLOCK_MATERIAL_GRASS")
    case False
    with r b g have "chunks' = c1" by (simp add: grow_tree_def)
    with t1 gb(7) b show ?thesis by simp
  next
    case True
    with r b g have l: "for_each (trunk_level cfg cp x z height radius bottom)
                      [1 .. height - 1] c1 = Inr chunks'"
      by (simp add: grow_tree_def)
    have "tree_writes cfg (unsigned_of_int x) (unsigned_of_int z) c1 chunks'"
      by (rule for_each_rel [OF _ _ _ l, of "tree_writes cfg (unsigned_of_int x) (unsigned_of_int z)"])
         (auto intro: tree_writes_refl tree_writes_trans trunk_level_writes [OF sy])
    with t1 have "tree_writes cfg (unsigned_of_int x) (unsigned_of_int z) chunks chunks'"
      by (rule tree_writes_trans)
    with b True gm show ?thesis by simp
  qed
qed

lemma attempts: "[0 .. TREES_PER_CHUNK - 1] = [0]"
  by (simp add: TREES_PER_CHUNK_def upto.simps)

lemma populate_trees_unfold:
  assumes "tree_draws cfg env (rand48 env (get_seed_for_coordinates env seed cp))
             = (x, z, height, radius, g')"
  shows "populate_trees cfg env seed chunks cp heights
           = grow_tree cfg cp heights x z height radius chunks"
  using assms
  by (simp add: populate_trees_def attempts tree_attempt_def Let_def split: sum.splits)


lemma tree_draws_in_range:
  assumes v: "valid_config cfg" and u: "uniform_int_in_range env"
    and d: "tree_draws cfg env g = (x, z, height, radius, g')"
  shows "drawn_in_range cfg x z height radius"
proof -
  obtain x1 g1 where 1: "uniform_int env MAX_TREE_RADIUS (SIZE_X cfg - MAX_TREE_RADIUS - 1) g = (x1, g1)"
    by (cases "uniform_int env MAX_TREE_RADIUS (SIZE_X cfg - MAX_TREE_RADIUS - 1) g")
  obtain z1 g2 where 2: "uniform_int env MAX_TREE_RADIUS (SIZE_Z cfg - MAX_TREE_RADIUS - 1) g1 = (z1, g2)"
    by (cases "uniform_int env MAX_TREE_RADIUS (SIZE_Z cfg - MAX_TREE_RADIUS - 1) g1")
  obtain h1 g3 where 3: "uniform_int env MIN_TREE_HEIGHT MAX_TREE_HEIGHT g2 = (h1, g3)"
    by (cases "uniform_int env MIN_TREE_HEIGHT MAX_TREE_HEIGHT g2")
  obtain r1 g4 where 4: "uniform_int env MIN_TREE_RADIUS MAX_TREE_RADIUS g3 = (r1, g4)"
    by (cases "uniform_int env MIN_TREE_RADIUS MAX_TREE_RADIUS g3")
  from d 1 2 3 4 have e: "x = x1" "z = z1" "height = h1" "radius = r1"
    by (simp_all add: tree_draws_def)
  from v have lx: "MAX_TREE_RADIUS \<le> SIZE_X cfg - MAX_TREE_RADIUS - 1"
    and lz: "MAX_TREE_RADIUS \<le> SIZE_Z cfg - MAX_TREE_RADIUS - 1"
    by (simp_all add: valid_config_def MAX_TREE_RADIUS_def)
  have lh: "MIN_TREE_HEIGHT \<le> MAX_TREE_HEIGHT" and lr: "MIN_TREE_RADIUS \<le> MAX_TREE_RADIUS"
    by (simp_all add: MIN_TREE_HEIGHT_def MAX_TREE_HEIGHT_def MIN_TREE_RADIUS_def
        MAX_TREE_RADIUS_def)
  from u lx 1 have "MAX_TREE_RADIUS \<le> x1 \<and> x1 \<le> SIZE_X cfg - MAX_TREE_RADIUS - 1"
    unfolding uniform_int_in_range_def by (metis fst_conv)
  moreover from u lz 2 have "MAX_TREE_RADIUS \<le> z1 \<and> z1 \<le> SIZE_Z cfg - MAX_TREE_RADIUS - 1"
    unfolding uniform_int_in_range_def by (metis fst_conv)
  moreover from u lh 3 have "MIN_TREE_HEIGHT \<le> h1 \<and> h1 \<le> MAX_TREE_HEIGHT"
    unfolding uniform_int_in_range_def by (metis fst_conv)
  moreover from u lr 4 have "MIN_TREE_RADIUS \<le> r1 \<and> r1 \<le> MAX_TREE_RADIUS"
    unfolding uniform_int_in_range_def by (metis fst_conv)
  ultimately show ?thesis using e by (simp add: drawn_in_range_def)
qed

lemma canopy_offsets_range:
  assumes "(u, v) \<in> set (canopy_offsets radius leaf_height)" and "0 \<le> leaf_height"
  shows "- radius \<le> u \<and> u \<le> radius \<and> - radius \<le> v \<and> v \<le> radius"
  using assms by (auto simp: canopy_offsets_def)

lemma canopy_in_footprint:
  assumes v: "valid_config cfg" and d: "drawn_in_range cfg x z height radius"
    and m: "(u, v) \<in> set (canopy_offsets radius leaf_height)" and l: "0 \<le> leaf_height"
  shows "0 \<le> x + u \<and> x + u \<le> SIZE_X cfg - 1 \<and> 0 \<le> z + v \<and> z + v \<le> SIZE_Z cfg - 1"
  using canopy_offsets_range [OF m l] d
  by (auto simp: drawn_in_range_def MAX_TREE_RADIUS_def)

lemma unsigned_in_extent:
  assumes "0 \<le> i" and "i \<le> n - 1" and "n < 2 ^ 31"
  shows "int (unsigned_of_int i) < n"
  using assms by (simp add: unsigned_of_int_nat)

lemma trunk_in_footprint:
  assumes v: "valid_config cfg" and d: "drawn_in_range cfg x z height radius"
  shows "int (unsigned_of_int x) < SIZE_X cfg" and "int (unsigned_of_int z) < SIZE_Z cfg"
proof -
  from v d have "0 \<le> x" "x \<le> SIZE_X cfg - 1" "SIZE_X cfg < 2 ^ 31"
    "0 \<le> z" "z \<le> SIZE_Z cfg - 1" "SIZE_Z cfg < 2 ^ 31"
    by (auto simp: drawn_in_range_def MAX_TREE_RADIUS_def valid_config_def)
  then show "int (unsigned_of_int x) < SIZE_X cfg" and "int (unsigned_of_int z) < SIZE_Z cfg"
    by (auto intro: unsigned_in_extent)
qed

lemma leaf_in_footprint:
  assumes v: "valid_config cfg" and d: "drawn_in_range cfg x z height radius"
    and m: "(u, v) \<in> set (canopy_offsets radius leaf_height)" and l: "0 \<le> leaf_height"
  shows "int (unsigned_of_int (x + u)) < SIZE_X cfg" and "int (unsigned_of_int (z + v)) < SIZE_Z cfg"
proof -
  from v have "SIZE_X cfg < 2 ^ 31" "SIZE_Z cfg < 2 ^ 31" by (simp_all add: valid_config_def)
  with canopy_in_footprint [OF v d m l]
  show "int (unsigned_of_int (x + u)) < SIZE_X cfg" and "int (unsigned_of_int (z + v)) < SIZE_Z cfg"
    by (auto intro: unsigned_in_extent)
qed

lemma leaf_cell_allocated:
  assumes v: "valid_config cfg" and d: "drawn_in_range cfg x z height radius"
    and m: "uv \<in> set (canopy_offsets radius leaf_height)" and l: "0 \<le> leaf_height"
    and a: "allocated cfg chunks (unsigned_of_int (bottom + y))"
  shows "\<exists>c'. leaf_cell cfg cp x z bottom y uv chunks = Inr c' \<and> length c' = length chunks"
proof -
  obtain u w where uv: "uv = (u, w)" by (cases uv)
  from a have i: "unsigned_of_int (bottom + y) div nat (SIZE_Y cfg) < length chunks"
    by (simp add: allocated_def)
  from leaf_in_footprint [OF v d m [unfolded uv] l]
  have "int (unsigned_of_int (x + u)) < SIZE_X cfg" "int (unsigned_of_int (z + w)) < SIZE_Z cfg" .
  with i have "get_block cfg chunks cp (unsigned_of_int (x + u)) (unsigned_of_int (z + w))
                 (unsigned_of_int (bottom + y))
     = Inr (chunks, (unsigned_of_int (bottom + y) div nat (SIZE_Y cfg),
                     (unsigned_of_int (x + u),
                      unsigned_of_int (bottom + y) mod nat (SIZE_Y cfg),
                      unsigned_of_int (z + w))))"
    by (simp add: get_block_def Let_def)
  with uv show ?thesis by (simp add: leaf_cell_def)
qed

lemma canopy_allocated:
  assumes v: "valid_config cfg" and d: "drawn_in_range cfg x z height radius"
    and l: "0 \<le> leaf_height"
    and a: "allocated cfg chunks (unsigned_of_int (bottom + y))"
  shows "\<exists>c'. for_each (leaf_cell cfg cp x z bottom y) (canopy_offsets radius leaf_height) chunks
               = Inr c' \<and> length c' = length chunks"
proof -
  let ?I = "\<lambda>s. length s = length chunks"
  have e: "\<And>uv s e. uv \<in> set (canopy_offsets radius leaf_height) \<Longrightarrow> ?I s \<Longrightarrow>
             leaf_cell cfg cp x z bottom y uv s = Inl e \<Longrightarrow> False"
  proof -
    fix uv s e
    assume m: "uv \<in> set (canopy_offsets radius leaf_height)" and i: "?I s"
      and f: "leaf_cell cfg cp x z bottom y uv s = Inl e"
    from a i have "allocated cfg s (unsigned_of_int (bottom + y))" by (simp add: allocated_def)
    from leaf_cell_allocated [OF v d m l this, of cp] f show False by auto
  qed
  have s: "\<And>uv s s'. uv \<in> set (canopy_offsets radius leaf_height) \<Longrightarrow> ?I s \<Longrightarrow>
             leaf_cell cfg cp x z bottom y uv s = Inr s' \<Longrightarrow> ?I s'"
  proof -
    fix uv s s'
    assume m: "uv \<in> set (canopy_offsets radius leaf_height)" and i: "?I s"
      and f: "leaf_cell cfg cp x z bottom y uv s = Inr s'"
    from a i have "allocated cfg s (unsigned_of_int (bottom + y))" by (simp add: allocated_def)
    from leaf_cell_allocated [OF v d m l this, of cp] f i show "?I s'" by auto
  qed
  show ?thesis
  proof (cases "for_each (leaf_cell cfg cp x z bottom y) (canopy_offsets radius leaf_height) chunks")
    case (Inl e')
    with for_each_errors [of "canopy_offsets radius leaf_height" ?I
        "leaf_cell cfg cp x z bottom y" "\<lambda>e. False" chunks e' chunks, OF e s]
    show ?thesis by simp
  next
    case (Inr c')
    with for_each_errors [of "canopy_offsets radius leaf_height" ?I
        "leaf_cell cfg cp x z bottom y" "\<lambda>e. False" chunks undefined c', OF e s]
    show ?thesis by simp
  qed
qed

lemma trunk_level_errors:
  assumes v: "valid_config cfg" and d: "drawn_in_range cfg x z height radius"
    and a: "unsigned_of_int (bottom + y) div nat (SIZE_Y cfg) \<le> length chunks"
  shows "(trunk_level cfg cp x z height radius bottom y chunks = Inl e \<longrightarrow>
            e = IntegerOutOfRange \<and> 2 ^ 31 \<le> unsigned_of_int (bottom + y)) \<and>
         (trunk_level cfg cp x z height radius bottom y chunks = Inr chunks' \<longrightarrow>
            allocated cfg chunks' (unsigned_of_int (bottom + y)))"
proof (cases "get_block cfg chunks cp (unsigned_of_int x) (unsigned_of_int z)
                (unsigned_of_int (bottom + y))")
  case (Inl e')
  from get_block_Inl [OF Inl] a trunk_in_footprint [OF v d]
  have "e' = IntegerOutOfRange \<and> 2 ^ 31 \<le> unsigned_of_int (bottom + y)" by auto
  with Inl show ?thesis by (simp add: trunk_level_def)
next
  case (Inr r)
  obtain c1 block where r: "r = (c1, block)" by (cases r)
  let ?trunk = "set_material c1 block BLOCK_MATERIAL_TREE_TRUNK"
  from get_block_Inr(4) [OF Inr [unfolded r]]
  have al: "allocated cfg ?trunk (unsigned_of_int (bottom + y))" by simp
  show ?thesis
  proof (cases "y - (height - radius - 1) \<ge> 0")
    case False
    with Inr r al show ?thesis by (auto simp: trunk_level_def Let_def)
  next
    case True
    from canopy_allocated [OF v d True al, of cp] obtain c' where
      "for_each (leaf_cell cfg cp x z bottom y)
         (canopy_offsets radius (y - (height - radius - 1))) ?trunk = Inr c'"
      "length c' = length ?trunk" by blast
    with Inr r al True show ?thesis by (auto simp: trunk_level_def Let_def allocated_def)
  qed
qed

lemma trunk_loop_errors:
  assumes v: "valid_config cfg" and d: "drawn_in_range cfg x z height radius"
    and b: "0 \<le> bottom" "bottom < 2 ^ 31"
  shows "1 \<le> i \<Longrightarrow> j < 2 ^ 31 \<Longrightarrow>
         unsigned_of_int (bottom + i) div nat (SIZE_Y cfg) \<le> length chunks \<Longrightarrow>
         for_each (trunk_level cfg cp x z height radius bottom) [i .. j] chunks = Inl e \<Longrightarrow>
           e = IntegerOutOfRange \<and> 2 ^ 31 \<le> bottom + j"
proof (induction i j arbitrary: chunks rule: upto.induct)
  case (1 i j)
  show ?case
  proof (cases "i \<le> j")
    case False
    with "1.prems"(4) show ?thesis by (simp add: upto.simps)
  next
    case True
    then have up: "[i .. j] = i # [i + 1 .. j]" by (simp add: upto.simps)
    from b "1.prems"(1,2) True have ui: "unsigned_of_int (bottom + i) = nat (bottom + i)"
      by (simp add: unsigned_of_int_nat)
    note tl = trunk_level_errors [OF v d "1.prems"(3), where cp = cp]
    show ?thesis
    proof (cases "trunk_level cfg cp x z height radius bottom i chunks")
      case (Inl e')
      with "1.prems"(4) up have "e' = e" by simp
      with tl [where e = e] Inl ui True b show ?thesis by auto
    next
      case (Inr c1)
      with tl [where chunks' = c1] have "allocated cfg c1 (unsigned_of_int (bottom + i))" by simp
      then have "allocated cfg c1 (nat (bottom + i))" using ui by simp
      from div_Suc_le [OF this]
      have "Suc (nat (bottom + i)) div nat (SIZE_Y cfg) \<le> length c1" .
      moreover have "nat (bottom + (i + 1)) = Suc (nat (bottom + i))"
        using b "1.prems"(1) by linarith
      ultimately have "nat (bottom + (i + 1)) div nat (SIZE_Y cfg) \<le> length c1"
        by (simp only:)
      moreover from b "1.prems"(1,2) True
      have "unsigned_of_int (bottom + (i + 1)) = nat (bottom + (i + 1)) \<or> \<not> i + 1 \<le> j"
        by (auto simp: unsigned_of_int_nat)
      ultimately have a': "i + 1 \<le> j \<Longrightarrow>
         unsigned_of_int (bottom + (i + 1)) div nat (SIZE_Y cfg) \<le> length c1" by auto
      from "1.prems"(4) up Inr
      have r: "for_each (trunk_level cfg cp x z height radius bottom) [i + 1 .. j] c1 = Inl e"
        by simp
      show ?thesis
      proof (cases "i + 1 \<le> j")
        case False
        with r show ?thesis by (simp add: upto.simps)
      next
        case T: True
        from "1.prems"(1) have "1 \<le> i + 1" by simp
        from "1.IH" [OF True this "1.prems"(2) a' [OF T] r] show ?thesis .
      qed
    qed
  qed
qed


lemma grow_tree_errors:
  assumes v: "valid_config cfg" and d: "drawn_in_range cfg x z height radius"
    and hs: "heights (x, z) = Some (int h)" and h: "h < 2 ^ 31" and a: "allocated cfg chunks h"
    and r: "grow_tree cfg cp heights x z height radius chunks = Inl e"
  shows "e = IntegerOutOfRange \<and> 2 ^ 31 \<le> int h + (height - 1)"
proof -
  from h have u: "unsigned_of_int (int h) = h" by (simp add: unsigned_of_int_nat)
  from a have i: "h div nat (SIZE_Y cfg) < length chunks" by (simp add: allocated_def)
  with trunk_in_footprint [OF v d]
  have g: "get_block cfg chunks cp (unsigned_of_int x) (unsigned_of_int z) h
     = Inr (chunks, (h div nat (SIZE_Y cfg), (unsigned_of_int x, h mod nat (SIZE_Y cfg),
                     unsigned_of_int z)))"
    by (simp add: get_block_def Let_def)
  from r hs u g have l: "for_each (trunk_level cfg cp x z height radius (int h))
                      [1 .. height - 1] chunks = Inl e"
    by (simp add: grow_tree_def split: if_splits)
  from d have j: "height - 1 < 2 ^ 31"
    by (simp add: drawn_in_range_def MAX_TREE_HEIGHT_def)
  from h have "unsigned_of_int (int h + 1) = Suc h" by (simp add: unsigned_of_int_nat)
  with div_Suc_le [OF a]
  have s: "unsigned_of_int (int h + 1) div nat (SIZE_Y cfg) \<le> length chunks" by simp
  have b: "0 \<le> int h" "int h < 2 ^ 31" using h by simp_all
  from trunk_loop_errors [OF v d b _ j s l] show ?thesis by simp
qed

lemma leaf_cell_no_block_error:
  assumes v: "valid_config cfg" and d: "drawn_in_range cfg x z height radius"
    and m: "uv \<in> set (canopy_offsets radius leaf_height)" and l: "0 \<le> leaf_height"
  shows "leaf_cell cfg cp x z bottom y uv chunks \<noteq> Inl BlockIndexOutOfRange"
proof -
  obtain u w where uv: "uv = (u, w)" by (cases uv)
  from leaf_in_footprint [OF v d m [unfolded uv] l]
  have "get_block cfg chunks cp (unsigned_of_int (x + u)) (unsigned_of_int (z + w))
          (unsigned_of_int (bottom + y)) \<noteq> Inl BlockIndexOutOfRange"
    by (rule get_block_no_block_error)
  with uv show ?thesis by (auto simp: leaf_cell_def split: sum.splits)
qed

lemma trunk_level_no_block_error:
  assumes v: "valid_config cfg" and d: "drawn_in_range cfg x z height radius"
  shows "trunk_level cfg cp x z height radius bottom y chunks \<noteq> Inl BlockIndexOutOfRange"
proof -
  from trunk_in_footprint [OF v d]
  have g: "get_block cfg chunks cp (unsigned_of_int x) (unsigned_of_int z)
          (unsigned_of_int (bottom + y)) \<noteq> Inl BlockIndexOutOfRange"
    by (rule get_block_no_block_error)
  have "0 \<le> y - (height - radius - 1) \<Longrightarrow>
     for_each (leaf_cell cfg cp x z bottom y)
       (canopy_offsets radius (y - (height - radius - 1))) s \<noteq> Inl BlockIndexOutOfRange" for s
    by (rule for_each_never) (rule leaf_cell_no_block_error [OF v d])
  with g show ?thesis by (auto simp: trunk_level_def Let_def split: sum.splits)
qed

lemma grow_tree_no_block_error:
  assumes v: "valid_config cfg" and d: "drawn_in_range cfg x z height radius"
  shows "grow_tree cfg cp heights x z height radius chunks \<noteq> Inl BlockIndexOutOfRange"
proof -
  have g: "get_block cfg chunks cp (unsigned_of_int x) (unsigned_of_int z) h
      \<noteq> Inl BlockIndexOutOfRange" for h
    using trunk_in_footprint [OF v d] by (rule get_block_no_block_error)
  have "for_each (trunk_level cfg cp x z height radius bottom) [1 .. height - 1] s
          \<noteq> Inl BlockIndexOutOfRange" for s bottom
    by (rule for_each_never) (rule trunk_level_no_block_error [OF v d])
  with g show ?thesis by (auto simp: grow_tree_def split: option.splits sum.splits)
qed

lemma generate_block_column_no_chunk_error:
  assumes sy: "0 < SIZE_Y cfg"
  shows "generate_block_column cfg features rp cp xz s \<noteq> Inl ChunkIndexOutOfRange"
proof -
  obtain x z where xz: "xz = (x, z)" by (cases xz)
  obtain chunks heights where s: "s = (chunks, heights)" by (cases s)
  let ?rel = "relative_position_of rp cp x z"
  have t: "total_height_at cfg features ?rel \<noteq> Inl ChunkIndexOutOfRange"
    by (auto simp: total_height_at_def get_octave_patch_def Let_def)
  have l: "layers_loop cfg features cp ?rel x z ls 0 chunks \<noteq> Inl ChunkIndexOutOfRange" for ls
    by (rule layers_loop_no_chunk_error [OF sy]) simp_all
  have i: "int_of_unsigned n \<noteq> Inl ChunkIndexOutOfRange" for n
    by (simp add: int_of_unsigned_def)
  from t l i xz s show ?thesis
    by (auto simp: generate_block_column_def Let_def split: sum.splits)
qed

lemma generate_chunk_column_no_chunk_error:
  assumes sy: "0 < SIZE_Y cfg"
  shows "generate_chunk_column cfg chunks features rp cp heights \<noteq> Inl ChunkIndexOutOfRange"
  unfolding generate_chunk_column_def
  by (rule for_each_never) (rule generate_block_column_no_chunk_error [OF sy])

lemma generate_chunk_column_heights:
  assumes v: "valid_config cfg"
    and r: "generate_chunk_column cfg chunks features rp cp heights = Inr (chunks', heights')"
    and m: "(x, z) \<in> set (footprint cfg)"
  shows "\<exists>h. heights' (x, z) = Some (int h) \<and> h < 2 ^ 31 \<and> allocated cfg chunks' h"
proof -
  from v have sy: "0 < SIZE_Y cfg" by (simp add: valid_config_def)
  have rng: "\<forall>xz \<in> set (footprint cfg).
      0 \<le> fst xz \<and> fst xz < 2 ^ 32 \<and> 0 \<le> snd xz \<and> snd xz < 2 ^ 32"
    using footprint_unsigned [OF v] by auto
  from r have "for_each (generate_block_column cfg features rp cp) (footprint cfg) (chunks, heights)
                 = Inr (chunks', heights')"
    by (simp add: generate_chunk_column_def)
  from columns_loop_Inr [OF sy this distinct_footprint rng] m
  show ?thesis by fastforce
qed

lemma drawn_in_footprint:
  assumes "drawn_in_range cfg x z height radius"
  shows "(x, z) \<in> set (footprint cfg)"
  using assms by (auto simp: drawn_in_range_def set_footprint MAX_TREE_RADIUS_def)

lemma populate_after_column_errors:
  assumes v: "valid_config cfg" and u: "uniform_int_in_range env"
    and r: "generate_chunk_column cfg chunks features rp cp heights = Inr (chunks', heights')"
    and p: "populate_trees cfg env seed chunks' cp heights' = Inl e"
  shows "e = IntegerOutOfRange"
proof -
  obtain x z height radius g' where
    t: "tree_draws cfg env (rand48 env (get_seed_for_coordinates env seed cp))
          = (x, z, height, radius, g')"
    by (metis prod_cases5)
  note d = tree_draws_in_range [OF v u t]
  from generate_chunk_column_heights [OF v r drawn_in_footprint [OF d]] obtain h where
    h: "heights' (x, z) = Some (int h)" "h < 2 ^ 31" "allocated cfg chunks' h" by blast
  from p populate_trees_unfold [OF t]
  have "grow_tree cfg cp heights' x z height radius chunks' = Inl e" by simp
  from grow_tree_errors [OF v d h this] show ?thesis by simp
qed


lemma lowest_draw_in_range: "uniform_int_in_range lowest_draw_env"
  by (simp add: uniform_int_in_range_def lowest_draw_env_def)

lemma lowest_draws:
  "tree_draws example_config lowest_draw_env g = (5, 5, 8, 3, g)"
  by (simp add: tree_draws_def lowest_draw_env_def example_config_def MAX_TREE_RADIUS_def
      MIN_TREE_RADIUS_def MIN_TREE_HEIGHT_def)

lemma grass_and_stone_at:
  "material_at example_config grass_and_stone (5, 0, 5) = BLOCK_MATERIAL_GRASS"
  "material_at example_config grass_and_stone (6, 4, 5) = BLOCK_MATERIAL_STONE"
  "allocated example_config grass_and_stone 0"
  by (simp_all add: material_at_def allocated_def grass_and_stone_def set_material_def
      new_Chunk_def example_config_def)

lemma grass_and_stone_tree:
  "\<exists>c. populate_trees example_config lowest_draw_env 0 grass_and_stone (0, 0)
         [(5, 5) \<mapsto> 0] = Inr c"
proof -
  have d: "drawn_in_range example_config 5 5 8 3"
    using tree_draws_in_range [OF valid_example_config lowest_draw_in_range lowest_draws] .
  have hs: "[(5, 5) \<mapsto> 0] (5 :: int, 5 :: int) = Some (int 0)" by simp
  have h0: "(0 :: nat) < 2 ^ 31" by simp
  have "grow_tree example_config (0, 0) [(5, 5) \<mapsto> 0] 5 5 8 3 grass_and_stone \<noteq> Inl e" for e
    using grow_tree_errors [where heights = "[(5, 5) \<mapsto> 0]" and h = 0 and cp = "(0, 0)"
        and e = e, OF valid_example_config d hs h0 grass_and_stone_at(3)]
    by auto
  then obtain c where
    "grow_tree example_config (0, 0) [(5, 5) \<mapsto> 0] 5 5 8 3 grass_and_stone = Inr c"
    by (cases "grow_tree example_config (0, 0) [(5, 5) \<mapsto> 0] 5 5 8 3 grass_and_stone") auto
  with populate_trees_unfold [OF lowest_draws] show ?thesis by simp
qed

lemma region_column_no_chunk_error:
  assumes v: "valid_config cfg" and u: "uniform_int_in_range env"
  shows "region_column cfg env seed features position xz chunks \<noteq> Inl ChunkIndexOutOfRange"
proof -
  obtain x z where xz: "xz = (x, z)" by (cases xz)
  let ?cp = "(fst position + x * SIZE_X cfg, snd position + z * SIZE_Z cfg)"
  from v have sy: "0 < SIZE_Y cfg" by (simp add: valid_config_def)
  show ?thesis
  proof (cases "generate_chunk_column cfg [] features position ?cp Map.empty")
    case (Inl e)
    with generate_chunk_column_no_chunk_error [OF sy, of "[]" features position ?cp Map.empty]
    have "e \<noteq> ChunkIndexOutOfRange" by auto
    with Inl xz show ?thesis by (simp add: region_column_def Let_def)
  next
    case (Inr r)
    obtain cc hh where r: "r = (cc, hh)" by (cases r)
    show ?thesis
    proof (cases "populate_trees cfg env seed cc ?cp hh")
      case (Inl e)
      from populate_after_column_errors [OF v u Inr [unfolded r] Inl]
      have "e \<noteq> ChunkIndexOutOfRange" by simp
      with Inl Inr r xz show ?thesis by (simp add: region_column_def Let_def)
    next
      case c: (Inr c')
      with Inr r xz show ?thesis by (simp add: region_column_def Let_def)
    qed
  qed
qed

lemma flat_run_with_trees:
  "\<exists>chunks' heights' trees.
     generate_chunk_column example_config [] (flat_features 0 0) (0, 0) (0, 0) Map.empty
       = Inr (chunks', heights') \<and>
     populate_trees example_config lowest_draw_env 0 chunks' (0, 0) heights' = Inr trees"
proof -
  from flat_run [of 0] obtain chunks' heights' where
    r: "generate_chunk_column example_config [] (flat_features 0 0) (0, 0) (0, 0)
      Map.empty = Inr (chunks', heights')" by blast
  have d: "drawn_in_range example_config 5 5 8 3"
    using tree_draws_in_range [OF valid_example_config lowest_draw_in_range lowest_draws] .
  have m: "(5, 5) \<in> set (footprint example_config)"
    by (rule drawn_in_footprint [OF d])
  from generate_chunk_column_Inr [OF valid_example_config r m] grass_top_flat [OF m, of 0]
  have hs: "heights' (5 :: int, 5 :: int) = Some (int 95)"
    and al: "allocated example_config chunks' 95"
    by auto
  have h: "(95 :: nat) < 2 ^ 31" by simp
  have "grow_tree example_config (0, 0) heights' 5 5 8 3 chunks' \<noteq> Inl e" for e
    using grow_tree_errors [where heights = heights' and h = 95 and cp = "(0, 0)"
        and e = e, OF valid_example_config d hs h al]
    by auto
  then obtain c where
    "grow_tree example_config (0, 0) heights' 5 5 8 3 chunks' = Inr c"
    by (cases "grow_tree example_config (0, 0) heights' 5 5 8 3 chunks'") auto
  with populate_trees_unfold [OF lowest_draws] r show ?thesis by simp
qed

lemma generate_region_this: "snd (generate_region cfg env this position) = this"
  by (simp add: generate_region_def Let_def)

lemma generate_regions_this: "snd (generate_regions cfg env this positions) = this"
proof (induction positions arbitrary: this)
  case Nil
  then show ?case by simp
next
  case (Cons p ps)
  obtain r t where g: "generate_region cfg env this p = (r, t)"
    by (cases "generate_region cfg env this p")
  with generate_region_this [of cfg env this p] have t: "t = this" by simp
  obtain rs t' where gs: "generate_regions cfg env this ps = (rs, t')"
    by (cases "generate_regions cfg env this ps")
  with Cons.IH [of this] have "t' = this" by simp
  with g t gs show ?case by simp
qed

lemma generate_regions_results:
  "fst (generate_regions cfg env this positions)
     = map (\<lambda>p. fst (generate_region cfg env this p)) positions"
proof (induction positions)
  case Nil
  then show ?case by simp
next
  case (Cons p ps)
  obtain r t where g: "generate_region cfg env this p = (r, t)"
    by (cases "generate_region cfg env this p")
  with generate_region_this [of cfg env this p] have t: "t = this" by simp
  obtain rs t' where gs: "generate_regions cfg env this ps = (rs, t')"
    by (cases "generate_regions cfg env this ps")
  with Cons.IH have "rs = map (\<lambda>p. fst (generate_region cfg env this p)) ps" by simp
  with g t gs show ?case by simp
qed

subsection \<open>The positions of the sampling calls\<close>





subsection \<open>No entry of the heightmap is read before it is written\<close>

lemma layer_cell_initialised:
  "layer_cell cfg features cp rp x z material y chunks \<noteq> Inl UninitialisedHeight"
proof
  assume a: "layer_cell cfg features cp rp x z material y chunks = Inl UninitialisedHeight"
  then have "get_block cfg chunks cp (unsigned_of_int x) (unsigned_of_int z) y
               = Inl UninitialisedHeight"
    by (auto simp: layer_cell_def split: sum.splits)
  from get_block_Inl [OF this] show False by simp
qed

lemma layers_loop_initialised:
  "layers_loop cfg features cp rp x z ls bottom chunks \<noteq> Inl UninitialisedHeight"
proof (induction ls arbitrary: bottom chunks)
  case Nil
  then show ?case by simp
next
  case (Cons l ls)
  obtain material h where l: "l = (material, h)" by (cases l)
  have b: "band_top h bottom \<noteq> Inl UninitialisedHeight"
    using band_top_Inl [of h bottom UninitialisedHeight] by auto
  have f: "for_each (layer_cell cfg features cp rp x z material) ys chunks
             \<noteq> Inl UninitialisedHeight" for ys
    by (rule for_each_never) (rule layer_cell_initialised)
  from b f Cons.IH l show ?case by (auto split: sum.splits)
qed

lemma generate_chunk_column_initialised:
  "generate_chunk_column cfg chunks features rp cp heights \<noteq> Inl UninitialisedHeight"
  unfolding generate_chunk_column_def
proof (rule for_each_never)
  fix xz :: "int \<times> int" and s :: "ChunkV \<times> ChunkHeightmap"
  obtain x z where xz: "xz = (x, z)" by (cases xz)
  obtain c h where s: "s = (c, h)" by (cases s)
  let ?rel = "relative_position_of rp cp x z"
  have t: "total_height_at cfg features ?rel \<noteq> Inl UninitialisedHeight"
    by (auto simp: total_height_at_def get_octave_patch_def Let_def)
  have i: "int_of_unsigned n \<noteq> Inl UninitialisedHeight" for n
    by (simp add: int_of_unsigned_def)
  from t i layers_loop_initialised [of cfg features cp ?rel x z _ 0 c] xz s
  show "generate_block_column cfg features rp cp xz s \<noteq> Inl UninitialisedHeight"
    by (auto simp: generate_block_column_def Let_def split: sum.splits)
qed

lemma generate_region_initialised:
  assumes v: "valid_config cfg" and u: "uniform_int_in_range env"
  shows "fst (generate_region cfg env this position) \<noteq> Inl UninitialisedHeight"
  unfolding generate_region_def Let_def fst_conv
proof (rule for_each_never)
  fix xz :: "int \<times> int" and chunks :: ChunkV
  let ?features = "RegionFeatures_new cfg env (world_seed_f this) position
                     fundamental_features octave_features"
  obtain x z where xz: "xz = (x, z)" by (cases xz)
  let ?cp = "(fst position + x * SIZE_X cfg, snd position + z * SIZE_Z cfg)"
  show "region_column cfg env (world_seed_f this) ?features position xz chunks
          \<noteq> Inl UninitialisedHeight"
  proof (cases "generate_chunk_column cfg [] ?features position ?cp Map.empty")
    case (Inl e)
    with generate_chunk_column_initialised [of cfg "[]" ?features position ?cp Map.empty]
    have "e \<noteq> UninitialisedHeight" by auto
    with Inl xz show ?thesis by (simp add: region_column_def Let_def)
  next
    case (Inr r)
    obtain cc hh where r: "r = (cc, hh)" by (cases r)
    show ?thesis
    proof (cases "populate_trees cfg env (world_seed_f this) cc ?cp hh")
      case (Inl e)
      from populate_after_column_errors [OF v u Inr [unfolded r] Inl]
      have "e \<noteq> UninitialisedHeight" by simp
      with Inl Inr r xz show ?thesis by (simp add: region_column_def Let_def)
    next
      case c: (Inr c')
      with Inr r xz show ?thesis by (simp add: region_column_def Let_def)
    qed
  qed
qed














subsection \<open>The order of the bands\<close>

text \<open>
  The claim C3 as stated, an ordered sequence of tops for every \<open>total_height\<close>, fails:
  at \<open>total_height = 10\<^sup>2\<^sup>0\<close> the formula of the bedrock band is far above the range of
  \<^verbatim>\<open>unsigned\<close>, the conversion of line 122 is undefined, and the layering has no
  sequence of tops at all, ordered or not.
\<close>

theorem band_tops_undefined_counterexample:
  "band_tops (layers (10 ^ 20)) 0 = Inl IntegerOutOfRange \<and>
   \<not> (\<exists>tops. band_tops (layers (10 ^ 20)) 0 = Inr tops \<and> sorted_wrt (\<le>) tops)"
proof -
  have "band_tops (layers (10 ^ 20)) 0 = Inl IntegerOutOfRange"
    by (simp add: layers_def band_top_def Scalar_of_unsigned_def roundf_def
        unsigned_of_Scalar_def Let_def)
  then show ?thesis by simp
qed

text \<open>
  Claim C3, amended. For every \<open>total_height\<close> of at most 16000000, which covers -1000
  and 1000, the layering computes six tops, in the order magma, bedrock, stone, clay,
  dirt, grass, each one the rounded maximum of the band's formula and of the top before
  plus one, and they are strictly increasing with the first above 0: no band is inverted
  and none is empty. The bound keeps every top below \<open>2\<^sup>2\<^sup>4\<close>, where a \<^verbatim>\<open>float\<close> holds
  every integer exactly.
\<close>

theorem band_tops_strictly_increasing:
  assumes "total_height \<le> 16000000"
  shows "\<exists>tops. band_tops (layers total_height) 0 = Inr tops \<and>
           length tops = 6 \<and> sorted_wrt (<) (0 # tops)"
proof -
  from assms have "\<forall>l \<in> set (layers total_height). snd l \<le> real 16000063"
    by (simp add: layers_def)
  moreover have "(0::nat) \<le> 16000063" by simp
  moreover have "16000063 + length (layers total_height) \<le> (2::nat) ^ 24"
    by (simp add: layers_def)
  ultimately obtain tops where t: "band_tops (layers total_height) 0 = Inr tops"
    using band_tops_total by blast
  have "(0::nat) < 2 ^ 32 - 1" by simp
  from band_tops_Inr [OF t this] have "length tops = 6 \<and> sorted_wrt (<) (0 # tops)"
    by (simp add: layers_def)
  with t show ?thesis by blast
qed

theorem band_tops_strictly_increasing_witness:
  "(- 1000 :: real) \<le> 16000000 \<and> (1000 :: real) \<le> 16000000 \<and>
   band_tops (layers (- 1000)) 0 = Inr [1, 2, 3, 4, 5, 6] \<and>
   band_tops (layers 1000) 0 = Inr [1, 270, 1052, 1058, 1062, 1063] \<and>
   (\<exists>tops. band_tops (layers 1000) 0 = Inr tops \<and>
      length tops = 6 \<and> sorted_wrt (<) (0 # tops))"
proof -
  have lo: "band_tops (layers (- 1000)) 0 = Inr [1, 2, 3, 4, 5, 6]"
    by (simp add: layers_def band_top_def Scalar_of_unsigned_def roundf_def
        unsigned_of_Scalar_def Let_def)
  have hi: "band_tops (layers 1000) 0 = Inr [1, 270, 1052, 1058, 1062, 1063]"
    by (simp add: layers_def band_top_def Scalar_of_unsigned_def roundf_def
        unsigned_of_Scalar_def Let_def)
  have le: "(1000 :: real) \<le> 16000000" by simp
  have le': "(- 1000 :: real) \<le> 16000000" by simp
  from band_tops_strictly_increasing [OF le] lo hi le le' show ?thesis by blast
qed

subsection \<open>The carving rule\<close>




subsection \<open>The heightmap\<close>

text \<open>
  The claim C5 as stated, "the block stored at the recorded height is non-air", fails:
  the carving applies to the grass band as well, so where both densities are in the
  window at the top cell of the grass, the recorded height holds air. With flat patches
  of value 0 and both densities 1/2, the entry of block column \<open>(0, 0)\<close> is 95 and the
  block at height 95 is air.
\<close>

theorem heightmap_surface_counterexample:
  "column_height
     (generate_chunk_column example_config [] (flat_features 0 (1 / 2)) (0, 0) (0, 0) Map.empty)
     (0, 0) = Some 95 \<and>
   column_material example_config
     (generate_chunk_column example_config [] (flat_features 0 (1 / 2)) (0, 0) (0, 0) Map.empty)
     (0, 95, 0) = Some BLOCK_MATERIAL_AIR"
proof -
  from flat_run [of "1 / 2"] obtain chunks' heights' where
    r: "generate_chunk_column example_config [] (flat_features 0 (1 / 2)) (0, 0) (0, 0)
      Map.empty = Inr (chunks', heights')" by blast
  from generate_chunk_column_Inr [OF valid_example_config r origin_in_footprint]
    grass_top_flat [OF origin_in_footprint, of "1 / 2"]
  have "heights' (0, 0) = Some 95 \<and>
        material_at example_config chunks' (0, 95, 0) = BLOCK_MATERIAL_AIR"
    by (auto simp: carved_flat)
  with r show ?thesis by (simp add: column_height_def column_material_def)
qed


text \<open>
  Claim C5, amended. After \<^verbatim>\<open>generate_chunk_column\<close> has filled an empty chunk vector,
  the heightmap entry of every \<open>(x, z)\<close> of the footprint is the top of the grass band
  of that block column; the chunk of that height is allocated; the block at that height
  is grass, or air when both densities are in the window there; and every block above
  it is air.
\<close>

theorem heightmap_is_grass_top:
  assumes "valid_config cfg"
    and "generate_chunk_column cfg [] features rp cp heights = Inr (chunks', heights')"
    and "(x, z) \<in> set (footprint cfg)"
  shows "\<exists>h. heights' (x, z) = Some (int h) \<and>
           grass_top cfg features (relative_position_of rp cp x z) = Inr h \<and>
           allocated cfg chunks' h \<and>
           material_at cfg chunks' (nat x, h, nat z) =
             (if carved features (box_position cfg (relative_position_of rp cp x z) h)
              then BLOCK_MATERIAL_AIR else BLOCK_MATERIAL_GRASS) \<and>
           (\<forall>y. h < y \<longrightarrow> material_at cfg chunks' (nat x, y, nat z) = BLOCK_MATERIAL_AIR)"
  using assms by (rule generate_chunk_column_Inr)

theorem heightmap_is_grass_top_witness:
  "column_height
     (generate_chunk_column example_config [] (flat_features 0 0) (0, 0) (0, 0) Map.empty)
     (0, 0) = Some 95 \<and>
   column_material example_config
     (generate_chunk_column example_config [] (flat_features 0 0) (0, 0) (0, 0) Map.empty)
     (0, 95, 0) = Some BLOCK_MATERIAL_GRASS \<and>
   column_material example_config
     (generate_chunk_column example_config [] (flat_features 0 0) (0, 0) (0, 0) Map.empty)
     (0, 96, 0) = Some BLOCK_MATERIAL_AIR"
proof -
  from flat_run [of 0] obtain chunks' heights' where
    r: "generate_chunk_column example_config [] (flat_features 0 0) (0, 0) (0, 0)
      Map.empty = Inr (chunks', heights')" by blast
  from heightmap_is_grass_top [OF valid_example_config r origin_in_footprint]
    grass_top_flat [OF origin_in_footprint, of 0]
  have "heights' (0, 0) = Some 95 \<and>
        material_at example_config chunks' (0, 95, 0) = BLOCK_MATERIAL_GRASS \<and>
        material_at example_config chunks' (0, 96, 0) = BLOCK_MATERIAL_AIR"
    by (auto simp: carved_flat)
  with r show ?thesis by (simp add: column_height_def column_material_def)
qed


subsection \<open>The vegetation pass\<close>

text \<open>
  Claim C6. The vegetation pass reads the block at the heightmap height of the drawn
  \<open>(x, z)\<close>, and when that block is not grass it changes no block at all. When a tree
  is placed, a cell whose material differs after the pass either held air and now holds
  a leaf, or lies in the block column of the trunk and now holds trunk: a leaf is only
  written where the cell held air, so the canopy never replaces a block that is not air.
\<close>

theorem tree_placement:
  assumes "0 < SIZE_Y cfg"
    and "populate_trees cfg env seed chunks cp heights = Inr chunks'"
    and "tree_draws cfg env (rand48 env (get_seed_for_coordinates env seed cp))
           = (x, z, height, radius, g')"
  shows "\<exists>bottom. heights (x, z) = Some bottom \<and>
           (material_at cfg chunks (unsigned_of_int x, unsigned_of_int bottom, unsigned_of_int z)
              \<noteq> BLOCK_MATERIAL_GRASS \<longrightarrow>
            material_at cfg chunks' = material_at cfg chunks) \<and>
           (\<forall>c. material_at cfg chunks' c \<noteq> material_at cfg chunks c \<longrightarrow>
              (material_at cfg chunks c = BLOCK_MATERIAL_AIR \<and>
               material_at cfg chunks' c = BLOCK_MATERIAL_TREE_LEAF) \<or>
              (fst c = unsigned_of_int x \<and> snd (snd c) = unsigned_of_int z \<and>
               material_at cfg chunks' c = BLOCK_MATERIAL_TREE_TRUNK))"
proof -
  from assms(2) populate_trees_unfold [OF assms(3)]
  have "grow_tree cfg cp heights x z height radius chunks = Inr chunks'" by simp
  from grow_tree_writes [OF assms(1) this] obtain bottom where
    b: "heights (x, z) = Some bottom"
    and w: "tree_writes cfg (unsigned_of_int x) (unsigned_of_int z) chunks chunks'"
    and g: "material_at cfg chunks (unsigned_of_int x, unsigned_of_int bottom, unsigned_of_int z)
              \<noteq> BLOCK_MATERIAL_GRASS \<longrightarrow>
            material_at cfg chunks' = material_at cfg chunks"
    by blast
  from w have "\<forall>c. material_at cfg chunks' c \<noteq> material_at cfg chunks c \<longrightarrow>
              (material_at cfg chunks c = BLOCK_MATERIAL_AIR \<and>
               material_at cfg chunks' c = BLOCK_MATERIAL_TREE_LEAF) \<or>
              (fst c = unsigned_of_int x \<and> snd (snd c) = unsigned_of_int z \<and>
               material_at cfg chunks' c = BLOCK_MATERIAL_TREE_TRUNK)"
    unfolding tree_writes_def by blast
  with b g show ?thesis by blast
qed

theorem tree_placement_witness:
  "material_in example_config
     (populate_trees example_config lowest_draw_env 0 grass_and_stone (0, 0) [(5, 5) \<mapsto> 0])
     (6, 4, 5) = Some BLOCK_MATERIAL_STONE \<and>
   material_in example_config
     (populate_trees example_config lowest_draw_env 0 [new_Chunk (0, 0, 0)] (0, 0)
        [(5, 5) \<mapsto> 0])
     (5, 1, 5) = Some BLOCK_MATERIAL_AIR"
proof -
  have sy: "0 < SIZE_Y example_config" by (simp add: example_config_def)
  from grass_and_stone_tree obtain c where
    c: "populate_trees example_config lowest_draw_env 0 grass_and_stone (0, 0)
         [(5, 5) \<mapsto> 0] = Inr c" by blast
  from tree_placement [OF sy c lowest_draws]
  have "material_at example_config c (6, 4, 5) \<noteq> material_at example_config grass_and_stone (6, 4, 5)
      \<longrightarrow> (material_at example_config grass_and_stone (6, 4, 5) = BLOCK_MATERIAL_AIR \<and>
               material_at example_config c (6, 4, 5) = BLOCK_MATERIAL_TREE_LEAF) \<or>
              (fst (6 :: nat, 4 :: nat, 5 :: nat) = unsigned_of_int 5 \<and>
               snd (snd (6 :: nat, 4 :: nat, 5 :: nat)) = unsigned_of_int 5 \<and>
               material_at example_config c (6, 4, 5) = BLOCK_MATERIAL_TREE_TRUNK)"
    by blast
  then have 1: "material_at example_config c (6, 4, 5) = BLOCK_MATERIAL_STONE"
    by (simp add: grass_and_stone_at unsigned_of_int_def)
  have "\<exists>d. grow_tree example_config (0, 0) [(5, 5) \<mapsto> 0] 5 5 8 3 [new_Chunk (0, 0, 0)]
          = Inr d"
    by (simp add: grow_tree_def get_block_def
        unsigned_of_int_def example_config_def Let_def get_material_def new_Chunk_def)
  then have "\<exists>d. populate_trees example_config lowest_draw_env 0 [new_Chunk (0, 0, 0)] (0, 0)
        [(5, 5) \<mapsto> 0] = Inr d"
    by (simp only: populate_trees_unfold [OF lowest_draws])
  then obtain d where
    d: "populate_trees example_config lowest_draw_env 0 [new_Chunk (0, 0, 0)] (0, 0)
        [(5, 5) \<mapsto> 0] = Inr d" by blast
  from tree_placement [OF sy d lowest_draws]
  have "material_at example_config d = material_at example_config [new_Chunk (0, 0, 0)]"
    by (simp add: material_at_def allocated_def new_Chunk_def unsigned_of_int_def
        example_config_def)
  then have 2: "material_at example_config d (5, 1, 5) = BLOCK_MATERIAL_AIR"
    by (simp add: material_at_def allocated_def new_Chunk_def example_config_def)
  from 1 2 c d show ?thesis by (simp add: material_in_def)
qed


subsection \<open>The canopy stays inside the chunk\<close>

text \<open>
  Claim C7. When the generator keeps the contract of \<^verbatim>\<open>uniform_int\<close>, the root offsets
  \<open>x\<close> and \<open>z\<close> of an attempt lie between \<open>MAX_TREE_RADIUS\<close> and the size of the
  chunk minus \<open>MAX_TREE_RADIUS\<close> minus 1, the radius is at most \<open>MAX_TREE_RADIUS\<close>, every
  cell \<open>(x + u, z + v)\<close> that the two loops of the canopy visit, at any level where the
  canopy is built, lies in \<open>[0, SIZE_X - 1] \<times> [0, SIZE_Z - 1]\<close>, and no block access of the
  pass is outside the horizontal extent of the chunk.
\<close>

theorem canopy_inside_footprint:
  assumes "valid_config cfg" and "uniform_int_in_range env"
    and "tree_draws cfg env (rand48 env (get_seed_for_coordinates env seed cp))
           = (x, z, height, radius, g')"
  shows "MAX_TREE_RADIUS \<le> x \<and> x \<le> SIZE_X cfg - MAX_TREE_RADIUS - 1 \<and>
         MAX_TREE_RADIUS \<le> z \<and> z \<le> SIZE_Z cfg - MAX_TREE_RADIUS - 1 \<and>
         radius \<le> MAX_TREE_RADIUS \<and>
         (\<forall>leaf_height u v. 0 \<le> leaf_height \<longrightarrow>
            (u, v) \<in> set (canopy_offsets radius leaf_height) \<longrightarrow>
            0 \<le> x + u \<and> x + u \<le> SIZE_X cfg - 1 \<and> 0 \<le> z + v \<and> z + v \<le> SIZE_Z cfg - 1) \<and>
         populate_trees cfg env seed chunks cp heights \<noteq> Inl BlockIndexOutOfRange"
proof -
  note d = tree_draws_in_range [OF assms]
  from d have "MAX_TREE_RADIUS \<le> x \<and> x \<le> SIZE_X cfg - MAX_TREE_RADIUS - 1 \<and>
         MAX_TREE_RADIUS \<le> z \<and> z \<le> SIZE_Z cfg - MAX_TREE_RADIUS - 1 \<and>
         radius \<le> MAX_TREE_RADIUS"
    by (simp add: drawn_in_range_def)
  moreover have "\<forall>leaf_height u v. 0 \<le> leaf_height \<longrightarrow>
            (u, v) \<in> set (canopy_offsets radius leaf_height) \<longrightarrow>
            0 \<le> x + u \<and> x + u \<le> SIZE_X cfg - 1 \<and> 0 \<le> z + v \<and> z + v \<le> SIZE_Z cfg - 1"
    using canopy_in_footprint [OF assms(1) d] by blast
  moreover have "populate_trees cfg env seed chunks cp heights \<noteq> Inl BlockIndexOutOfRange"
    using grow_tree_no_block_error [OF assms(1) d] populate_trees_unfold [OF assms(3)]
    by simp
  ultimately show ?thesis by blast
qed

theorem canopy_inside_footprint_witness:
  "valid_config example_config \<and> uniform_int_in_range lowest_draw_env \<and>
   tree_draws example_config lowest_draw_env
     (rand48 lowest_draw_env (get_seed_for_coordinates lowest_draw_env 0 (0, 0)))
     = (5, 5, 8, 3, ()) \<and>
   (- 3, 3) \<in> set (canopy_offsets 3 0) \<and>
   (0 :: int) \<le> 5 + (- 3) \<and> (5 :: int) + 3 \<le> SIZE_Z example_config - 1 \<and>
   populate_trees example_config lowest_draw_env 0 grass_and_stone (0, 0) [(5, 5) \<mapsto> 0]
     \<noteq> Inl BlockIndexOutOfRange"
proof -
  have m: "(- 3, 3) \<in> set (canopy_offsets 3 0)" by (simp add: canopy_offsets_def)
  have t: "tree_draws example_config lowest_draw_env
     (rand48 lowest_draw_env (get_seed_for_coordinates lowest_draw_env 0 (0, 0)))
     = (5, 5, 8, 3, ())"
    by (simp add: lowest_draws)
  from canopy_inside_footprint [OF valid_example_config lowest_draw_in_range t,
      of grass_and_stone "[(5, 5) \<mapsto> 0]"] m
  have "(0 :: int) \<le> 5 + (- 3) \<and> (5 :: int) + 3 \<le> SIZE_Z example_config - 1 \<and>
    populate_trees example_config lowest_draw_env 0 grass_and_stone (0, 0) [(5, 5) \<mapsto> 0]
     \<noteq> Inl BlockIndexOutOfRange"
    by fastforce
  with valid_example_config lowest_draw_in_range t m show ?thesis by blast
qed


subsection \<open>The chunk index of every block access\<close>

text \<open>
  Claim C10. No call of \<^verbatim>\<open>get_block\<close> made while a region is generated asks for a
  height whose chunk index is past the end of the chunk vector after the one conditional
  \<^verbatim>\<open>push_back\<close>: the layering of a column of chunks never stops with
  \<open>ChunkIndexOutOfRange\<close>, whatever chunk vector it starts from; the vegetation pass
  that follows it on its chunks and heightmap never does; and so \<^verbatim>\<open>generate_region\<close>
  never does.
\<close>

theorem chunk_index_in_bounds:
  assumes "valid_config cfg" and "uniform_int_in_range env"
  shows "generate_chunk_column cfg chunks features rp cp heights \<noteq> Inl ChunkIndexOutOfRange \<and>
         (generate_chunk_column cfg chunks features rp cp heights = Inr (chunks', heights') \<longrightarrow>
            populate_trees cfg env seed chunks' cp heights' \<noteq> Inl ChunkIndexOutOfRange) \<and>
         fst (generate_region cfg env this position) \<noteq> Inl ChunkIndexOutOfRange"
proof -
  from assms(1) have sy: "0 < SIZE_Y cfg" by (simp add: valid_config_def)
  have 1: "generate_chunk_column cfg chunks features rp cp heights \<noteq> Inl ChunkIndexOutOfRange"
    by (rule generate_chunk_column_no_chunk_error [OF sy])
  have 2: "generate_chunk_column cfg chunks features rp cp heights = Inr (chunks', heights') \<longrightarrow>
            populate_trees cfg env seed chunks' cp heights' \<noteq> Inl ChunkIndexOutOfRange"
    using populate_after_column_errors [OF assms] by fastforce
  have 3: "fst (generate_region cfg env this position) \<noteq> Inl ChunkIndexOutOfRange"
    unfolding generate_region_def Let_def fst_conv
    by (rule for_each_never) (rule region_column_no_chunk_error [OF assms])
  from 1 2 3 show ?thesis by blast
qed

theorem chunk_index_in_bounds_witness:
  "valid_config example_config \<and> uniform_int_in_range lowest_draw_env \<and>
   generate_chunk_column example_config [] (flat_features 0 0) (0, 0) (0, 0) Map.empty
     \<noteq> Inl ChunkIndexOutOfRange \<and>
   fst (generate_region example_config lowest_draw_env (WorldGenerator_new 0) (0, 0))
     \<noteq> Inl ChunkIndexOutOfRange \<and>
   (\<exists>chunks' heights' trees.
     generate_chunk_column example_config [] (flat_features 0 0) (0, 0) (0, 0) Map.empty
       = Inr (chunks', heights') \<and>
     populate_trees example_config lowest_draw_env 0 chunks' (0, 0) heights' = Inr trees)"
  using chunk_index_in_bounds [OF valid_example_config lowest_draw_in_range]
    valid_example_config lowest_draw_in_range flat_run_with_trees
  by blast


subsection \<open>Determinism\<close>

text \<open>
  Claim C1. For every seed and every position, \<^verbatim>\<open>generate_region\<close> called on a
  generator that has already generated any list of earlier regions returns what a fresh
  generator of the same seed returns for that position: the same chunks, with the same
  origins and the same materials, or the same error. In a sequence of calls each result
  depends on its own position only, whatever the order of the calls. And no run reads an
  entry of the heightmap that was not written, the one local object that starts without
  a value. The functions of the absent files are pure functions of their arguments here,
  as the spec's design says of them.
\<close>

theorem generate_region_deterministic:
  "fst (generate_region cfg env
          (snd (generate_regions cfg env (WorldGenerator_new world_seed) earlier)) position)
     = fst (generate_region cfg env (WorldGenerator_new world_seed) position) \<and>
   fst (generate_regions cfg env (WorldGenerator_new world_seed) positions)
     = map (\<lambda>p. fst (generate_region cfg env (WorldGenerator_new world_seed) p)) positions \<and>
   (valid_config cfg \<and> uniform_int_in_range env \<longrightarrow>
      fst (generate_region cfg env (WorldGenerator_new world_seed) position)
        \<noteq> Inl UninitialisedHeight)"
  by (simp add: generate_regions_this generate_regions_results generate_region_initialised)

theorem generate_region_deterministic_witness:
  "fst (generate_region example_config lowest_draw_env
          (snd (generate_regions example_config lowest_draw_env (WorldGenerator_new 7)
                  [(128, 0), (0, 128)])) (0, 0))
     = fst (generate_region example_config lowest_draw_env (WorldGenerator_new 7) (0, 0)) \<and>
   fst (generate_regions example_config lowest_draw_env (WorldGenerator_new 7)
          [(128, 0), (0, 0)])
     = map (\<lambda>p. fst (generate_region example_config lowest_draw_env (WorldGenerator_new 7) p))
         [(128, 0), (0, 0)] \<and>
   valid_config example_config \<and> uniform_int_in_range lowest_draw_env \<and>
   fst (generate_region example_config lowest_draw_env (WorldGenerator_new 7) (0, 0))
     \<noteq> Inl UninitialisedHeight"
  using generate_region_deterministic
    [of example_config lowest_draw_env 7 "[(128, 0), (0, 128)]" "(0, 0)" "[(128, 0), (0, 0)]"]
    valid_example_config lowest_draw_in_range
  by blast


subsection \<open>Corner values of a patch\<close>

text \<open>
  Claim C9. \<open>interpolate\<close> at the corners \<open>(0,0)\<close>, \<open>(1,0)\<close>, \<open>(1,1)\<close> and \<open>(0,1)\<close> of
  the unit square returns exactly the value seeded for the corner: for a patch built by
  the constructor, the value sampled at the anchor plus the corner's offset; for any
  patch, the value it stores for the corner.
\<close>

theorem interpolate_corner_exact:
  "(let patch = BicubicPatch_new env seed position patch_size features
    in interpolate patch (0, 0)
         = sample_corner env seed (fst position, snd position) (features_a features) \<and>
       interpolate patch (1, 0)
         = sample_corner env seed (fst position + fst patch_size, snd position)
             (features_b features) \<and>
       interpolate patch (1, 1)
         = sample_corner env seed (fst position + fst patch_size, snd position + snd patch_size)
             (features_c features) \<and>
       interpolate patch (0, 1)
         = sample_corner env seed (fst position, snd position + snd patch_size)
             (features_d features)) \<and>
   interpolate p (0, 0) = corner_a p \<and> interpolate p (1, 0) = corner_b p \<and>
   interpolate p (1, 1) = corner_c p \<and> interpolate p (0, 1) = corner_d p"
  by (simp add: Let_def interpolate_def blend_def smoothstep_def BicubicPatch_new_def)

theorem interpolate_corner_exact_witness:
  "interpolate \<lparr> corner_a = 1, corner_b = 2, corner_c = 3, corner_d = 4 \<rparr> (0, 0) = 1 \<and>
   interpolate \<lparr> corner_a = 1, corner_b = 2, corner_c = 3, corner_d = 4 \<rparr> (1, 0) = 2 \<and>
   interpolate \<lparr> corner_a = 1, corner_b = 2, corner_c = 3, corner_d = 4 \<rparr> (1, 1) = 3 \<and>
   interpolate \<lparr> corner_a = 1, corner_b = 2, corner_c = 3, corner_d = 4 \<rparr> (0, 1) = 4"
  using interpolate_corner_exact
    [where p = "\<lparr> corner_a = 1, corner_b = 2, corner_c = 3, corner_d = 4 \<rparr>"
       and env = lowest_draw_env and seed = 0 and position = "(0, 0)"
       and patch_size = "(1, 1)" and features = fundamental_features]
  by simp


subsection \<open>Seams between regions\<close>

text \<open>
  Claim C2. For every seed and every region position, the fundamental patch of a region
  and the fundamental patch of its neighbour towards larger \<open>x\<close>, each built by its own
  \<^verbatim>\<open>RegionFeatures\<close>, agree at every point of the shared edge: \<open>interpolate\<close> at
  \<open>(1, t)\<close> of the first is \<open>interpolate\<close> at \<open>(0, t)\<close> of the second. The same holds
  for the neighbour towards larger \<open>z\<close>, at \<open>(t, 1)\<close> and \<open>(t, 0)\<close>.
\<close>

theorem fundamental_patch_seam:
  "interpolate (get_fundamental_patch
       (RegionFeatures_new cfg env world_seed (px, pz) fundamental_features octave_features))
     (1, t)
   = interpolate (get_fundamental_patch
       (RegionFeatures_new cfg env world_seed (px + REGION_SIZE cfg, pz)
          fundamental_features octave_features))
     (0, t) \<and>
   interpolate (get_fundamental_patch
       (RegionFeatures_new cfg env world_seed (px, pz) fundamental_features octave_features))
     (t, 1)
   = interpolate (get_fundamental_patch
       (RegionFeatures_new cfg env world_seed (px, pz + REGION_SIZE cfg)
          fundamental_features octave_features))
     (t, 0)"
  by (simp add: get_fundamental_patch_def RegionFeatures_new_def Let_def BicubicPatch_new_def
      interpolate_def blend_def smoothstep_def fundamental_features_def)

theorem fundamental_patch_seam_witness:
  "interpolate (get_fundamental_patch
       (RegionFeatures_new example_config lowest_draw_env 7 (0, 0)
          fundamental_features octave_features))
     (1, 1 / 4)
   = interpolate (get_fundamental_patch
       (RegionFeatures_new example_config lowest_draw_env 7 (128, 0)
          fundamental_features octave_features))
     (0, 1 / 4)"
  using fundamental_patch_seam [of example_config lowest_draw_env 7 0 0 "1 / 4"]
  by (simp add: example_config_def)


subsection \<open>Sampling positions\<close>





end
